theory Spec2Isabelle
  imports Complex_Main "HOL-Library.AList"
begin

section \<open>Building circuits out of XX interactions (monodromy/xx\_decompose/circuits.py)\<close>

text \<open>
  A shallow embedding of \<^verbatim>\<open>circuits.py\<close>. Python floats are idealised as
  real numbers; a float that is NaN is the value \<open>None\<close> of an option type, so
  every place where the source can produce NaN is a branch of the model. Exceptions are
  values of the type \<open>error\<close>, returned on the left of a sum.
\<close>

subsection \<open>Exceptions\<close>

datatype error =
    NoBacksolution
  | AssertionError
  | KeyError
  | IndexError
  | StopIteration
  | ValueError

subsection \<open>Numeric helpers: \<^verbatim>\<open>nearp\<close> and \<^verbatim>\<open>safe_arccos\<close>\<close>

text \<open>
  \<^verbatim>\<open>np.mod(x, m)\<close> on floats: the remainder has the sign of the divisor,
  \<open>x - m * floor (x / m)\<close>; a zero divisor gives NaN.
\<close>

definition np_mod :: "real \<Rightarrow> real \<Rightarrow> real option" where
  "np_mod x m = (if m = 0 then None else Some (x - m * of_int \<lfloor>x / m\<rfloor>))"

text \<open>
  \<^verbatim>\<open>
  def nearp(x, y, modulus=np.pi/2, epsilon=1e-2):
      return abs(np.mod(abs(x - y), modulus)) < epsilon or \
             abs(np.mod(abs(x - y), modulus) - modulus) < epsilon
  \<close>
  The defaults are written out at every call. A comparison with NaN is false.
\<close>

definition nearp :: "real \<Rightarrow> real \<Rightarrow> real \<Rightarrow> real \<Rightarrow> bool" where
  "nearp x y modulus epsilon =
     (case np_mod \<bar>x - y\<bar> modulus of
        None \<Rightarrow> False
      | Some r \<Rightarrow> \<bar>r\<bar> < epsilon \<or> \<bar>r - modulus\<bar> < epsilon)"

text \<open>
  \<^verbatim>\<open>np.arccos(numerator / denominator)\<close> on numpy floats: a zero denominator
  gives an infinity or NaN, and the arccosine of anything outside \<open>[-1, 1]\<close> is NaN.
\<close>

definition np_arccos_ratio :: "real \<Rightarrow> real \<Rightarrow> real option" where
  "np_arccos_ratio numerator denominator =
     (if denominator = 0 then None
      else if \<bar>numerator / denominator\<bar> \<le> 1 then Some (arccos (numerator / denominator))
      else None)"

text \<open>
  \<^verbatim>\<open>
  def safe_arccos(numerator, denominator):
      threshold = 0.005
      if abs(numerator) > abs(denominator) and \
              abs(numerator - denominator) < threshold:
          return 0.0
      elif abs(numerator) > abs(denominator) and \
              abs(numerator + denominator) < threshold:
          return np.pi
      else:
          return np.arccos(numerator / denominator)
  \<close>
\<close>

definition safe_arccos :: "real \<Rightarrow> real \<Rightarrow> real option" where
  "safe_arccos numerator denominator =
     (let threshold = 5 / 1000 in
      if \<bar>numerator\<bar> > \<bar>denominator\<bar> \<and> \<bar>numerator - denominator\<bar> < threshold
      then Some 0
      else if \<bar>numerator\<bar> > \<bar>denominator\<bar> \<and> \<bar>numerator + denominator\<bar> < threshold
      then Some pi
      else np_arccos_ratio numerator denominator)"

subsection \<open>Circuits\<close>

text \<open>
  A circuit on the two-wire register \<open>q\<close> is the sequence of its instructions, first
  applied first, together with its \<^verbatim>\<open>global_phase\<close> attribute. The code
  itself only appends the rotations \<^verbatim>\<open>RXGate\<close>, \<^verbatim>\<open>RYGate\<close> and
  \<^verbatim>\<open>RZGate\<close>; the gates of a native fragment of the catalog are opaque
  (\<open>Ext\<close>). \<^verbatim>\<open>QuantumCircuit.inverse()\<close> reverses the sequence and inverts each
  gate: a rotation by \<open>\<theta>\<close> becomes the rotation by \<open>-\<theta>\<close>.
\<close>

datatype gate_class = RXGate | RYGate | RZGate

datatype 'g instruction =
    Rot gate_class real nat
  | Ext 'g
  | ExtInverse 'g

record 'g circuit =
  data :: "'g instruction list"
  global_phase :: real

fun inverse_instruction :: "'g instruction \<Rightarrow> 'g instruction" where
  "inverse_instruction (Rot g theta w) = Rot g (- theta) w"
| "inverse_instruction (Ext g) = ExtInverse g"
| "inverse_instruction (ExtInverse g) = Ext g"

definition inverse_gates :: "'g instruction list \<Rightarrow> 'g instruction list" where
  "inverse_gates c = rev (map inverse_instruction c)"

text \<open>
  \<^verbatim>\<open>
  def canonical_rotation_circuit(first_index, second_index, q):
      conj = qiskit.QuantumCircuit(q)
      if (0, 1) == (first_index, second_index):
          pass  # no need to do anything
      elif (0, 2) == (first_index, second_index):
          conj.rx(-np.pi / 2, q[0])
          conj.rx(np.pi / 2, q[1])
      elif (1, 0) == (first_index, second_index):
          conj.rz(-np.pi / 2, q[0])
          conj.rz(-np.pi / 2, q[1])
      elif (1, 2) == (first_index, second_index):
          conj.rz(np.pi / 2, q[0])
          conj.rz(np.pi / 2, q[1])
          conj.ry(np.pi / 2, q[0])
          conj.ry(-np.pi / 2, q[1])
      elif (2, 0) == (first_index, second_index):
          conj.rz(np.pi / 2, q[0])
          conj.rz(np.pi / 2, q[1])
          conj.rx(np.pi / 2, q[0])
          conj.rx(-np.pi / 2, q[1])
      elif (2, 1) == (first_index, second_index):
          conj.ry(np.pi / 2, q[0])
          conj.ry(-np.pi / 2, q[1])
      return conj
  \<close>
\<close>

definition canonical_rotation_circuit :: "int \<Rightarrow> int \<Rightarrow> 'g instruction list" where
  "canonical_rotation_circuit first_index second_index =
     (if (0, 1) = (first_index, second_index) then []
      else if (0, 2) = (first_index, second_index) then
        [Rot RXGate (- pi / 2) 0, Rot RXGate (pi / 2) 1]
      else if (1, 0) = (first_index, second_index) then
        [Rot RZGate (- pi / 2) 0, Rot RZGate (- pi / 2) 1]
      else if (1, 2) = (first_index, second_index) then
        [Rot RZGate (pi / 2) 0, Rot RZGate (pi / 2) 1,
         Rot RYGate (pi / 2) 0, Rot RYGate (- pi / 2) 1]
      else if (2, 0) = (first_index, second_index) then
        [Rot RZGate (pi / 2) 0, Rot RZGate (pi / 2) 1,
         Rot RXGate (pi / 2) 0, Rot RXGate (- pi / 2) 1]
      else if (2, 1) = (first_index, second_index) then
        [Rot RYGate (pi / 2) 0, Rot RYGate (- pi / 2) 1]
      else [])"


subsection \<open>Canonical coordinates and the symmetry tables\<close>

text \<open>
  A canonical coordinate is a triple of angles. The code indexes it only with the
  literals \<open>0\<close>, \<open>1\<close>, \<open>2\<close> and with the indices of the nine axis pairs, all of
  them in range.
\<close>

type_synonym coord = "real \<times> real \<times> real"

fun coord_nth :: "coord \<Rightarrow> int \<Rightarrow> real" where
  "coord_nth (a, b, c) i = (if i = 0 then a else if i = 1 then b else c)"

text \<open>
  \<^verbatim>\<open>
  reflection_options = {
      "no reflection":  ([ 1,  1,  1],  1, []),
      "reflect XX, YY": ([-1, -1,  1],  1, [RZGate]),
      "reflect XX, ZZ": ([-1,  1, -1],  1, [RYGate]),
      "reflect YY, ZZ": ([ 1, -1, -1], -1, [RXGate]),
  }
  shift_options = {
      "no shift":    ([0, 0, 0],   1, []),
      "Z shift":     ([0, 0, 1],  1j, [RZGate]),
      "Y shift":     ([0, 1, 0], -1j, [RYGate]),
      "Y,Z shift":   ([0, 1, 1],  -1, [RYGate, RZGate]),
      "X shift":     ([1, 0, 0], -1j, [RXGate]),
      "X,Z shift":   ([1, 0, 1],   1, [RXGate, RZGate]),
      "X,Y shift":   ([1, 1, 0],  -1, [RXGate, RYGate]),
      "X,Y,Z shift": ([1, 1, 1], -1j, [RXGate, RYGate, RZGate]),
  }
  \<close>
  The keys of the two dictionaries are fixed literals: they are the constructors of a
  datatype, the dictionary is a function on it, and \<^verbatim>\<open>.keys()\<close> is the list of
  the keys in the order of the declaration.
\<close>

datatype reflection_name = NoReflection | ReflectXXYY | ReflectXXZZ | ReflectYYZZ

datatype shift_name =
  NoShift | ZShift | YShift | YZShift | XShift | XZShift | XYShift | XYZShift

fun reflection_options :: "reflection_name \<Rightarrow> coord \<times> complex \<times> gate_class list" where
  "reflection_options NoReflection = (( 1,  1,  1),  1, [])"
| "reflection_options ReflectXXYY  = ((-1, -1,  1),  1, [RZGate])"
| "reflection_options ReflectXXZZ  = ((-1,  1, -1),  1, [RYGate])"
| "reflection_options ReflectYYZZ  = (( 1, -1, -1), -1, [RXGate])"

definition reflection_names :: "reflection_name list" where
  "reflection_names = [NoReflection, ReflectXXYY, ReflectXXZZ, ReflectYYZZ]"

fun shift_options :: "shift_name \<Rightarrow> coord \<times> complex \<times> gate_class list" where
  "shift_options NoShift  = ((0, 0, 0),  1, [])"
| "shift_options ZShift   = ((0, 0, 1),  \<i>, [RZGate])"
| "shift_options YShift   = ((0, 1, 0), - \<i>, [RYGate])"
| "shift_options YZShift  = ((0, 1, 1), - 1, [RYGate, RZGate])"
| "shift_options XShift   = ((1, 0, 0), - \<i>, [RXGate])"
| "shift_options XZShift  = ((1, 0, 1),  1, [RXGate, RZGate])"
| "shift_options XYShift  = ((1, 1, 0), - 1, [RXGate, RYGate])"
| "shift_options XYZShift = ((1, 1, 1), - \<i>, [RXGate, RYGate, RZGate])"

definition shift_names :: "shift_name list" where
  "shift_names = [NoShift, ZShift, YShift, YZShift, XShift, XZShift, XYShift, XYZShift]"

text \<open>
  \<^verbatim>\<open>
  def apply_reflection(reflection_name, coordinate, q):
      reflection_scalars, reflection_phase_shift, source_reflection_gates = \
          reflection_options[reflection_name]
      reflected_coord = [x * y for x, y in zip(reflection_scalars, coordinate)]
      source_reflection = qiskit.QuantumCircuit(q)
      for gate in source_reflection_gates:
          source_reflection.append(gate(np.pi), [q[0]])
      return reflected_coord, source_reflection, reflection_phase_shift
  \<close>
\<close>

definition apply_reflection ::
  "reflection_name \<Rightarrow> coord \<Rightarrow> coord \<times> 'g instruction list \<times> complex" where
  "apply_reflection name coordinate =
     (case reflection_options name of
        ((x0, x1, x2), reflection_phase_shift, source_reflection_gates) \<Rightarrow>
          (case coordinate of (y0, y1, y2) \<Rightarrow>
            ((x0 * y0, x1 * y1, x2 * y2),
             map (\<lambda>gate. Rot gate pi 0) source_reflection_gates,
             reflection_phase_shift)))"

text \<open>
  \<^verbatim>\<open>
  def apply_shift(shift_name, coordinate, q):
      shift_scalars, shift_phase_shift, source_shift_gates = \
          shift_options[shift_name]
      shifted_coord = [np.pi / 2 * x + y for x, y in zip(shift_scalars, coordinate)]
      source_shift = qiskit.QuantumCircuit(q)
      for gate in source_shift_gates:
          source_shift.append(gate(np.pi), [q[0]])
          source_shift.append(gate(np.pi), [q[1]])
      return shifted_coord, source_shift, shift_phase_shift
  \<close>
\<close>

definition apply_shift ::
  "shift_name \<Rightarrow> coord \<Rightarrow> coord \<times> 'g instruction list \<times> complex" where
  "apply_shift name coordinate =
     (case shift_options name of
        ((x0, x1, x2), shift_phase_shift, source_shift_gates) \<Rightarrow>
          (case coordinate of (y0, y1, y2) \<Rightarrow>
            ((pi / 2 * x0 + y0, pi / 2 * x1 + y1, pi / 2 * x2 + y2),
             concat (map (\<lambda>gate. [Rot gate pi 0, Rot gate pi 1]) source_shift_gates),
             shift_phase_shift)))"

subsection \<open>What the module imports from the rest of the package\<close>

text \<open>
  \<^verbatim>\<open>alcove_to_positive_canonical_coordinate\<close>, \<^verbatim>\<open>canonical_matrix\<close>,
  \<^verbatim>\<open>rz_matrix\<close> and \<^verbatim>\<open>epsilon\<close> are imported from modules whose
  source is not part of this development; they are parameters of the model.
  \<^verbatim>\<open>canonical_matrix\<close> is called with two and with one positional argument and
  receives the list of them. Matrices are functions from row and column to the entry;
  \<^verbatim>\<open>np.dot\<close> is used on 4 by 4 matrices and \<^verbatim>\<open>np.kron\<close> on 2 by 2 ones.
\<close>

type_synonym matrix = "nat \<Rightarrow> nat \<Rightarrow> complex"

record externals =
  alcove_to_positive_canonical_coordinate :: "real \<Rightarrow> real \<Rightarrow> real \<Rightarrow> coord"
  canonical_matrix :: "real list \<Rightarrow> matrix"
  rz_matrix :: "real \<Rightarrow> matrix"
  epsilon :: real

definition np_dot :: "matrix \<Rightarrow> matrix \<Rightarrow> matrix" where
  "np_dot A B = (\<lambda>i j. \<Sum>k<4. A i k * B k j)"

definition np_kron :: "matrix \<Rightarrow> matrix \<Rightarrow> matrix" where
  "np_kron A B = (\<lambda>i j. A (i div 2) (j div 2) * B (i mod 2) (j mod 2))"

text \<open>\<^verbatim>\<open>np.angle\<close> is the argument in \<open>(-\<pi>, \<pi>]\<close>, and \<open>0\<close> at \<open>0\<close>: \<^const>\<open>Arg\<close>.
  \<^verbatim>\<open>np.log\<close> on a complex number is the principal logarithm.\<close>

definition np_log :: "complex \<Rightarrow> complex" where
  "np_log z = Complex (ln (cmod z)) (Arg z)"

text \<open>
  Assigning to \<^verbatim>\<open>QuantumCircuit.global_phase\<close> goes through the setter of the
  Qiskit library, which stores the angle reduced modulo \<open>2\<pi>\<close> into \<open>[0, 2\<pi>)\<close>:
  \<^verbatim>\<open>
  angle = float(angle)
  if not angle:
      self._global_phase = 0
  else:
      self._global_phase = angle % (2 * np.pi)
  \<close>
\<close>

definition global_phase_setter :: "real \<Rightarrow> real" where
  "global_phase_setter angle =
     (if angle = 0 then 0 else angle - (2 * pi) * of_int \<lfloor>angle / (2 * pi)\<rfloor>)"

subsection \<open>The backsolver\<close>

text \<open>
  \<^verbatim>\<open>
  def decompose_xxyy_into_xxyy_xx(a_target, b_target, a1, b1, a2):
      cplus, cminus = np.cos(a1 + b1), np.cos(a1 - b1)
      splus, sminus = np.sin(a1 + b1), np.sin(a1 - b1)
      ca, sa = np.cos(a2), np.sin(a2)
      uplusv = 1 / 2 * safe_arccos(
          cminus ** 2 * ca ** 2 + sminus ** 2 * sa ** 2 - np.cos(a_target - b_target) ** 2,
          2 * cminus * ca * sminus * sa)
      uminusv = 1 / 2 * safe_arccos(
          cplus ** 2 * ca ** 2 + splus ** 2 * sa ** 2 - np.cos(a_target + b_target) ** 2,
          2 * cplus * ca * splus * sa)
      u, v = (uplusv + uminusv) / 2, (uplusv - uminusv) / 2
      middle_matrix = reduce(np.dot, [
          canonical_matrix(a1, b1),
          np.kron(rz_matrix(u), rz_matrix(v)),
          canonical_matrix(a2),
      ])
      phase_solver = np.array([
          [1 / 4, 1 / 4, 1 / 4, 1 / 4, ],
          [1 / 4, -1 / 4, -1 / 4, 1 / 4, ],
          [1 / 4, 1 / 4, -1 / 4, -1 / 4, ],
          [1 / 4, -1 / 4, 1 / 4, -1 / 4, ],
      ])
      inner_phases = [
          np.angle(middle_matrix[0, 0]),
          np.angle(middle_matrix[1, 1]),
          np.angle(middle_matrix[1, 2]) + np.pi / 2,
          np.angle(middle_matrix[0, 3]) + np.pi / 2,
      ]
      r, s, x, y = np.dot(phase_solver, inner_phases)
      generated_matrix = reduce(np.dot, [
          np.kron(rz_matrix(r), rz_matrix(s)),
          middle_matrix,
          np.kron(rz_matrix(x), rz_matrix(y)),
      ])
      if ((abs(np.angle(generated_matrix[3, 0]) - np.pi / 2) < 0.01 and a_target > b_target) or
              (abs(np.angle(generated_matrix[3, 0]) + np.pi / 2) < 0.01 and a_target < b_target)):
          x += np.pi / 4
          y += np.pi / 4
          r -= np.pi / 4
          s -= np.pi / 4
      return r, s, u, v, x, y
  \<close>
  The only source of NaN is \<^verbatim>\<open>safe_arccos\<close>; a NaN there reaches \<open>u\<close> and
  \<open>v\<close>, so the caller's test \<^verbatim>\<open>any(math.isnan(val) ...)\<close> holds exactly when
  the model returns \<open>None\<close>.
\<close>

type_synonym angles = "real \<times> real \<times> real \<times> real \<times> real \<times> real"

definition decompose_xxyy_into_xxyy_xx ::
  "externals \<Rightarrow> real \<Rightarrow> real \<Rightarrow> real \<Rightarrow> real \<Rightarrow> real \<Rightarrow> angles option" where
  "decompose_xxyy_into_xxyy_xx ext a_target b_target a1 b1 a2 =
     (let cplus = cos (a1 + b1); cminus = cos (a1 - b1);
          splus = sin (a1 + b1); sminus = sin (a1 - b1);
          ca = cos a2; sa = sin a2
      in case safe_arccos
                (cminus\<^sup>2 * ca\<^sup>2 + sminus\<^sup>2 * sa\<^sup>2 - (cos (a_target - b_target))\<^sup>2)
                (2 * cminus * ca * sminus * sa) of
           None \<Rightarrow> None
         | Some arccos_plus \<Rightarrow>
        (case safe_arccos
                (cplus\<^sup>2 * ca\<^sup>2 + splus\<^sup>2 * sa\<^sup>2 - (cos (a_target + b_target))\<^sup>2)
                (2 * cplus * ca * splus * sa) of
           None \<Rightarrow> None
         | Some arccos_minus \<Rightarrow>
        (let uplusv = 1 / 2 * arccos_plus;
             uminusv = 1 / 2 * arccos_minus;
             u = (uplusv + uminusv) / 2;
             v = (uplusv - uminusv) / 2;
             middle_matrix =
               np_dot (np_dot (canonical_matrix ext [a1, b1])
                              (np_kron (rz_matrix ext u) (rz_matrix ext v)))
                      (canonical_matrix ext [a2]);
             p0 = Arg (middle_matrix 0 0);
             p1 = Arg (middle_matrix 1 1);
             p2 = Arg (middle_matrix 1 2) + pi / 2;
             p3 = Arg (middle_matrix 0 3) + pi / 2;
             r = 1 / 4 * p0 + 1 / 4 * p1 + 1 / 4 * p2 + 1 / 4 * p3;
             s = 1 / 4 * p0 + - 1 / 4 * p1 + - 1 / 4 * p2 + 1 / 4 * p3;
             x = 1 / 4 * p0 + 1 / 4 * p1 + - 1 / 4 * p2 + - 1 / 4 * p3;
             y = 1 / 4 * p0 + - 1 / 4 * p1 + 1 / 4 * p2 + - 1 / 4 * p3;
             generated_matrix =
               np_dot (np_dot (np_kron (rz_matrix ext r) (rz_matrix ext s)) middle_matrix)
                      (np_kron (rz_matrix ext x) (rz_matrix ext y))
         in if (\<bar>Arg (generated_matrix 3 0) - pi / 2\<bar> < 1 / 100 \<and> a_target > b_target)
               \<or> (\<bar>Arg (generated_matrix 3 0) + pi / 2\<bar> < 1 / 100 \<and> a_target < b_target)
            then Some (r - pi / 4, s - pi / 4, u, v, x + pi / 4, y + pi / 4)
            else Some (r, s, u, v, x, y))))"

subsection \<open>The search for a realizable hop\<close>

text \<open>
  What the search keeps of the combination it stops at: the variables that
  \<^verbatim>\<open>xx_circuit_from_decomposition\<close> reads after its loops.
\<close>

record 'g realization =
  source_reflection :: "'g instruction list"
  reflection_phase_shift :: complex
  source_shift :: "'g instruction list"
  shift_phase_shift :: complex
  permute_source_for_overlap :: "'g instruction list"
  permute_target_for_overlap :: "'g instruction list"
  angle_r :: real
  angle_s :: real
  angle_u :: real
  angle_v :: real
  angle_x :: real
  angle_y :: real

text \<open>
  \<^verbatim>\<open>
  source_shared, target_shared = None, None
  for i, j in [(0, 0), (0, 1), (0, 2),
               (1, 0), (1, 1), (1, 2),
               (2, 0), (2, 1), (2, 2)]:
      if nearp(shifted_source_coord[i], target_canonical_coord[j],
               modulus=np.pi):
          source_shared, target_shared = i, j
          break
  \<close>
\<close>

definition axis_pairs :: "(int \<times> int) list" where
  "axis_pairs = [(0, 0), (0, 1), (0, 2),
                 (1, 0), (1, 1), (1, 2),
                 (2, 0), (2, 1), (2, 2)]"

definition shared_axes :: "coord \<Rightarrow> coord \<Rightarrow> (int \<times> int) option" where
  "shared_axes shifted_source_coord target_canonical_coord =
     find (\<lambda>(i, j). nearp (coord_nth shifted_source_coord i)
                           (coord_nth target_canonical_coord j) pi (1 / 100))
          axis_pairs"

text \<open>
  \<^verbatim>\<open>source_first, source_second = [x for x in [0, 1, 2] if x != source_shared]\<close>:
  unpacking anything but two values raises \<^verbatim>\<open>ValueError\<close>.
\<close>

definition other_axes :: "int \<Rightarrow> error + int \<times> int" where
  "other_axes shared =
     (case filter (\<lambda>x. x \<noteq> shared) [0, 1, 2] of
        [first, second] \<Rightarrow> Inr (first, second)
      | _ \<Rightarrow> Inl ValueError)"

text \<open>
  The body of the innermost loop once a shared axis pair is found (lines 341 to 363):
  \<^verbatim>\<open>
  source_first, source_second = [x for x in [0, 1, 2] if x != source_shared]
  target_first, target_second = [x for x in [0, 1, 2] if x != target_shared]
  r, s, u, v, x, y = decompose_xxyy_into_xxyy_xx(
      float(target_canonical_coord[target_first]),
      float(target_canonical_coord[target_second]),
      float(shifted_source_coord[source_first]),
      float(shifted_source_coord[source_second]),
      float(canonical_coordinate_table[operation][0]),
  )
  if any([math.isnan(val) for val in (r, s, u, v, x, y)]):
      continue
  permute_source_for_overlap = canonical_rotation_circuit(source_first, source_second, q)
  permute_target_for_overlap = canonical_rotation_circuit(target_first, target_second, q)
  break
  \<close>
  The result \<open>Inr None\<close> is the \<^verbatim>\<open>continue\<close>; a missing key of the coordinate
  table raises \<^verbatim>\<open>KeyError\<close>.
\<close>

definition backsolve ::
  "externals \<Rightarrow> (string \<times> coord) list \<Rightarrow> string \<Rightarrow> coord \<Rightarrow> coord \<Rightarrow> int \<Rightarrow> int
   \<Rightarrow> error + ((int \<times> int) \<times> (int \<times> int) \<times> angles) option" where
  "backsolve ext canonical_coordinate_table operation shifted_source_coord
       target_canonical_coord source_shared target_shared =
     (case other_axes source_shared of
        Inl e \<Rightarrow> Inl e
      | Inr (source_first, source_second) \<Rightarrow>
     (case other_axes target_shared of
        Inl e \<Rightarrow> Inl e
      | Inr (target_first, target_second) \<Rightarrow>
     (case map_of canonical_coordinate_table operation of
        None \<Rightarrow> Inl KeyError
      | Some c \<Rightarrow>
     (case decompose_xxyy_into_xxyy_xx ext
             (coord_nth target_canonical_coord target_first)
             (coord_nth target_canonical_coord target_second)
             (coord_nth shifted_source_coord source_first)
             (coord_nth shifted_source_coord source_second)
             (coord_nth c 0) of
        None \<Rightarrow> Inr None
      | Some rsuvxy \<Rightarrow>
          Inr (Some ((source_first, source_second), (target_first, target_second), rsuvxy))))))"

text \<open>
  One pass of the loop over the shift names (lines 325 to 364), for the reflection the
  outer loop is at.
\<close>

definition try_shift ::
  "externals \<Rightarrow> (string \<times> coord) list \<Rightarrow> string \<Rightarrow> coord \<Rightarrow> coord
   \<Rightarrow> 'g instruction list \<Rightarrow> complex \<Rightarrow> shift_name \<Rightarrow> error + 'g realization option" where
  "try_shift ext canonical_coordinate_table operation target_canonical_coord
       reflected_source_coord source_reflection_circuit reflection_phase source_shift_name =
     (case apply_shift source_shift_name reflected_source_coord of
        (shifted_source_coord, source_shift_circuit, shift_phase) \<Rightarrow>
     (case shared_axes shifted_source_coord target_canonical_coord of
        None \<Rightarrow> Inr None
      | Some (source_shared, target_shared) \<Rightarrow>
     (case backsolve ext canonical_coordinate_table operation shifted_source_coord
             target_canonical_coord source_shared target_shared of
        Inl e \<Rightarrow> Inl e
      | Inr None \<Rightarrow> Inr None
      | Inr (Some ((source_first, source_second), (target_first, target_second),
                   (r, s, u, v, x, y))) \<Rightarrow>
          Inr (Some \<lparr> source_reflection = source_reflection_circuit,
                      reflection_phase_shift = reflection_phase,
                      source_shift = source_shift_circuit,
                      shift_phase_shift = shift_phase,
                      permute_source_for_overlap =
                        canonical_rotation_circuit source_first source_second,
                      permute_target_for_overlap =
                        canonical_rotation_circuit target_first target_second,
                      angle_r = r, angle_s = s, angle_u = u, angle_v = v,
                      angle_x = x, angle_y = y \<rparr>))))"

text \<open>
  The two nested loops (lines 322 to 367): the inner one over
  \<^verbatim>\<open>shift_options.keys()\<close>, the outer one over
  \<^verbatim>\<open>reflection_options.keys()\<close>; both stop at the first realization.
\<close>

fun shift_loop ::
  "externals \<Rightarrow> (string \<times> coord) list \<Rightarrow> string \<Rightarrow> coord \<Rightarrow> coord
   \<Rightarrow> 'g instruction list \<Rightarrow> complex \<Rightarrow> shift_name list \<Rightarrow> error + 'g realization option" where
  "shift_loop ext cct operation target reflected circ phase [] = Inr None"
| "shift_loop ext cct operation target reflected circ phase (name # names) =
     (case try_shift ext cct operation target reflected circ phase name of
        Inl e \<Rightarrow> Inl e
      | Inr (Some found) \<Rightarrow> Inr (Some found)
      | Inr None \<Rightarrow> shift_loop ext cct operation target reflected circ phase names)"

fun reflection_loop ::
  "externals \<Rightarrow> (string \<times> coord) list \<Rightarrow> string \<Rightarrow> coord \<Rightarrow> coord
   \<Rightarrow> reflection_name list \<Rightarrow> error + 'g realization option" where
  "reflection_loop ext cct operation source target [] = Inr None"
| "reflection_loop ext cct operation source target (name # names) =
     (case apply_reflection name source of
        (reflected_source_coord, source_reflection_circuit, reflection_phase) \<Rightarrow>
     (case shift_loop ext cct operation target reflected_source_coord
             source_reflection_circuit reflection_phase shift_names of
        Inl e \<Rightarrow> Inl e
      | Inr (Some found) \<Rightarrow> Inr (Some found)
      | Inr None \<Rightarrow> reflection_loop ext cct operation source target names))"

subsection \<open>The assembler\<close>

text \<open>
  Lines 374 to 403. \<^verbatim>\<open>+=\<close> and \<^verbatim>\<open>compose(..., inplace=True)\<close> both append
  the instructions of their argument; \<^verbatim>\<open>rz(theta, q[k])\<close> appends one rotation.
  \<^verbatim>\<open>
  output_circuit = qiskit.QuantumCircuit(q)
  output_circuit += permute_source_for_overlap
  output_circuit += source_reflection
  output_circuit.compose(qc, inplace=True)
  output_circuit += source_reflection.inverse()
  output_circuit += source_shift
  output_circuit += permute_source_for_overlap.inverse()
  qc = output_circuit
  global_phase *= reflection_phase_shift * shift_phase_shift

  output_circuit = qiskit.QuantumCircuit(q)
  output_circuit.rz(2 * x, q[0])
  output_circuit.rz(2 * y, q[1])
  output_circuit.compose(canonical_gate_table[operation], inplace=True)
  output_circuit.rz(2 * u, q[0])
  output_circuit.rz(2 * v, q[1])
  output_circuit.compose(qc, inplace=True)
  output_circuit.rz(2 * r, q[0])
  output_circuit.rz(2 * s, q[1])
  qc = output_circuit

  output_circuit = qiskit.QuantumCircuit(q)
  output_circuit += permute_target_for_overlap.inverse()
  output_circuit.compose(qc, inplace=True)
  output_circuit += permute_target_for_overlap
  qc = output_circuit
  \<close>
\<close>

definition assemble_hop ::
  "'g instruction list \<Rightarrow> 'g instruction list \<Rightarrow> 'g realization \<Rightarrow> 'g instruction list" where
  "assemble_hop qc native found =
     (let output_circuit = [];
          output_circuit = output_circuit @ permute_source_for_overlap found;
          output_circuit = output_circuit @ source_reflection found;
          output_circuit = output_circuit @ qc;
          output_circuit = output_circuit @ inverse_gates (source_reflection found);
          output_circuit = output_circuit @ source_shift found;
          output_circuit = output_circuit @ inverse_gates (permute_source_for_overlap found);
          qc = output_circuit;
          output_circuit = [];
          output_circuit = output_circuit @ [Rot RZGate (2 * angle_x found) 0];
          output_circuit = output_circuit @ [Rot RZGate (2 * angle_y found) 1];
          output_circuit = output_circuit @ native;
          output_circuit = output_circuit @ [Rot RZGate (2 * angle_u found) 0];
          output_circuit = output_circuit @ [Rot RZGate (2 * angle_v found) 1];
          output_circuit = output_circuit @ qc;
          output_circuit = output_circuit @ [Rot RZGate (2 * angle_r found) 0];
          output_circuit = output_circuit @ [Rot RZGate (2 * angle_s found) 1];
          qc = output_circuit;
          output_circuit = [];
          output_circuit = output_circuit @ inverse_gates (permute_target_for_overlap found);
          output_circuit = output_circuit @ qc;
          output_circuit = output_circuit @ permute_target_for_overlap found
      in output_circuit)"

text \<open>
  The search of one hop (lines 314 to 367): both alcove coordinates are converted, then
  the loops run over all reflections and shifts of the source.
  \<^verbatim>\<open>
  source_canonical_coord, target_canonical_coord = [
      alcove_to_positive_canonical_coordinate(*x)
      for x in [source_alcove_coord, target_alcove_coord]
  ]
  \<close>
\<close>

type_synonym hop = "coord \<times> string \<times> coord"

definition search_hop ::
  "externals \<Rightarrow> (string \<times> coord) list \<Rightarrow> hop \<Rightarrow> error + 'g realization option" where
  "search_hop ext canonical_coordinate_table h =
     (case h of ((sx, sy, sz), operation, (tx, ty, tz)) \<Rightarrow>
     (let source_canonical_coord = alcove_to_positive_canonical_coordinate ext sx sy sz;
          target_canonical_coord = alcove_to_positive_canonical_coordinate ext tx ty tz
      in reflection_loop ext canonical_coordinate_table operation
           source_canonical_coord target_canonical_coord reflection_names))"

text \<open>
  One pass of the loop over \<^verbatim>\<open>decomposition[1:]\<close> (lines 312 to 403). The state is
  the pair of the circuit built so far and the running \<^verbatim>\<open>global_phase\<close>; the phase
  attribute of the intermediate circuits is never read and is overwritten at the end
  (line 405), so only their instructions are threaded.
  \<^verbatim>\<open>
  if permute_source_for_overlap is None:
      raise NoBacksolution()
  \<close>
\<close>

definition hop_step ::
  "externals \<Rightarrow> (string \<times> coord) list \<Rightarrow> (string \<times> 'g circuit) list
   \<Rightarrow> 'g instruction list \<times> complex \<Rightarrow> hop \<Rightarrow> error + 'g instruction list \<times> complex" where
  "hop_step ext canonical_coordinate_table canonical_gate_table state h =
     (case state of (qc, running_phase) \<Rightarrow>
     (case search_hop ext canonical_coordinate_table h of
        Inl e \<Rightarrow> Inl e
      | Inr None \<Rightarrow> Inl NoBacksolution
      | Inr (Some found) \<Rightarrow>
          (case map_of canonical_gate_table (fst (snd h)) of
             None \<Rightarrow> Inl KeyError
           | Some native \<Rightarrow>
               Inr (assemble_hop qc (data native) found,
                    running_phase
                      * (reflection_phase_shift found * shift_phase_shift found)))))"

fun run_hops ::
  "externals \<Rightarrow> (string \<times> coord) list \<Rightarrow> (string \<times> 'g circuit) list
   \<Rightarrow> 'g instruction list \<times> complex \<Rightarrow> hop list \<Rightarrow> error + 'g instruction list \<times> complex" where
  "run_hops ext cct cgt state [] = Inr state"
| "run_hops ext cct cgt state (h # hs) =
     (case hop_step ext cct cgt state h of
        Inl e \<Rightarrow> Inl e
      | Inr state' \<Rightarrow> run_hops ext cct cgt state' hs)"

text \<open>
  The first hop (lines 292 to 309); \<^verbatim>\<open>qc\<close> is empty and
  \<^verbatim>\<open>global_phase\<close> is \<^verbatim>\<open>1 + 0j\<close> before it.
  \<^verbatim>\<open>
  if decomposition[0][2][0] <= 1/4:
      qc.compose(canonical_gate_table[decomposition[0][1]], inplace=True)
  else:
      _, source_reflection, reflection_phase_shift = \
          apply_reflection("reflect XX, YY", [0, 0, 0], q)
      _, source_shift, shift_phase_shift = \
          apply_shift("X shift", [0, 0, 0], q)
      qc += source_reflection
      qc.compose(canonical_gate_table[decomposition[0][1]], inplace=True)
      qc += source_reflection.inverse()
      qc += source_shift
      global_phase *= shift_phase_shift * reflection_phase_shift
  \<close>
\<close>

definition first_hop ::
  "(string \<times> 'g circuit) list \<Rightarrow> hop \<Rightarrow> error + 'g instruction list \<times> complex" where
  "first_hop canonical_gate_table h =
     (case h of (source_alcove_coord, operation, target_alcove_coord) \<Rightarrow>
      if coord_nth target_alcove_coord 0 \<le> 1 / 4 then
        (case map_of canonical_gate_table operation of
           None \<Rightarrow> Inl KeyError
         | Some native \<Rightarrow> Inr ([] @ data native, 1))
      else
        (case apply_reflection ReflectXXYY (0, 0, 0) of
           (_, source_reflection_circuit, reflection_phase) \<Rightarrow>
        (case apply_shift XShift (0, 0, 0) of
           (_, source_shift_circuit, shift_phase) \<Rightarrow>
        (case map_of canonical_gate_table operation of
           None \<Rightarrow> Inl KeyError
         | Some native \<Rightarrow>
             Inr ([] @ source_reflection_circuit @ data native
                     @ inverse_gates source_reflection_circuit @ source_shift_circuit,
                  1 * (shift_phase * reflection_phase))))))"

subsection \<open>The catalog of native operations and the entry point\<close>

text \<open>
  An \<^verbatim>\<open>OperationPolytopeData\<close> as far as this module reads it: the list
  \<^verbatim>\<open>operations\<close> of names, the \<^verbatim>\<open>equalities\<close> of each of its
  \<^verbatim>\<open>convex_subpolytopes\<close> (rows of coefficients), and the
  \<^verbatim>\<open>canonical_circuit\<close>.
\<close>

record 'g operation_polytope =
  operations :: "string list"
  convex_subpolytopes :: "real list list list"
  canonical_circuit :: "'g circuit"

definition list_at :: "'a list \<Rightarrow> nat \<Rightarrow> error + 'a" where
  "list_at xs i = (if i < length xs then Inr (xs ! i) else Inl IndexError)"

text \<open>
  \<^verbatim>\<open>next(-eq[0] / eq[1+j] for eq in equalities if eq[1+j] != 0)\<close>:
  \<^verbatim>\<open>StopIteration\<close> when no row has a non-zero coefficient at \<open>1 + j\<close>.
\<close>

fun first_solution :: "nat \<Rightarrow> real list list \<Rightarrow> error + real" where
  "first_solution j [] = Inl StopIteration"
| "first_solution j (eq # eqs) =
     (case list_at eq (1 + j) of
        Inl e \<Rightarrow> Inl e
      | Inr d \<Rightarrow>
          if d \<noteq> 0 then (case list_at eq 0 of Inl e \<Rightarrow> Inl e | Inr n \<Rightarrow> Inr (- n / d))
          else first_solution j eqs)"

text \<open>
  One item of the dictionary comprehension
  \<^verbatim>\<open>
  canonical_coordinate_table = {
      operation.operations[0]: alcove_to_positive_canonical_coordinate(
          *[next(-eq[0] / eq[1+j]
                 for eq in operation.convex_subpolytopes[0].equalities
                 if eq[1+j] != 0)
            for j in range(3)]
      )
      for operation in operations
  }
  \<close>
  A later item with the same key replaces the value of an earlier one, which keeps its
  place: \<^const>\<open>AList.update\<close>.
\<close>

definition coordinate_item :: "externals \<Rightarrow> 'g operation_polytope \<Rightarrow> error + string \<times> coord" where
  "coordinate_item ext operation =
     (case list_at (operations operation) 0 of
        Inl e \<Rightarrow> Inl e
      | Inr key \<Rightarrow>
     (case list_at (convex_subpolytopes operation) 0 of
        Inl e \<Rightarrow> Inl e
      | Inr equalities \<Rightarrow>
     (case first_solution 0 equalities of
        Inl e \<Rightarrow> Inl e
      | Inr x \<Rightarrow>
     (case first_solution 1 equalities of
        Inl e \<Rightarrow> Inl e
      | Inr y \<Rightarrow>
     (case first_solution 2 equalities of
        Inl e \<Rightarrow> Inl e
      | Inr z \<Rightarrow> Inr (key, alcove_to_positive_canonical_coordinate ext x y z))))))"

fun coordinate_table_from ::
  "externals \<Rightarrow> (string \<times> coord) list \<Rightarrow> 'g operation_polytope list
   \<Rightarrow> error + (string \<times> coord) list" where
  "coordinate_table_from ext table [] = Inr table"
| "coordinate_table_from ext table (operation # rest) =
     (case coordinate_item ext operation of
        Inl e \<Rightarrow> Inl e
      | Inr (key, c) \<Rightarrow> coordinate_table_from ext (AList.update key c table) rest)"

text \<open>
  \<^verbatim>\<open>
  canonical_gate_table = {
      operation.operations[0]: operation.canonical_circuit
      for operation in operations
  }
  \<close>
\<close>

fun gate_table_from ::
  "(string \<times> 'g circuit) list \<Rightarrow> 'g operation_polytope list
   \<Rightarrow> error + (string \<times> 'g circuit) list" where
  "gate_table_from table [] = Inr table"
| "gate_table_from table (operation # rest) =
     (case list_at (operations operation) 0 of
        Inl e \<Rightarrow> Inl e
      | Inr key \<Rightarrow> gate_table_from (AList.update key (canonical_circuit operation) table) rest)"

text \<open>
  The assertion of lines 280 and 281:
  \<^verbatim>\<open>
  assert all([abs(c[1]) < epsilon and abs(c[2]) < epsilon
              for c in canonical_coordinate_table.values()])
  \<close>
\<close>

definition xx_interaction_type :: "externals \<Rightarrow> (string \<times> coord) list \<Rightarrow> bool" where
  "xx_interaction_type ext canonical_coordinate_table =
     list_all (\<lambda>c. \<bar>coord_nth c 1\<bar> < epsilon ext \<and> \<bar>coord_nth c 2\<bar> < epsilon ext)
              (map snd canonical_coordinate_table)"

text \<open>
  The entry point. A fresh \<^verbatim>\<open>QuantumCircuit\<close> has no instruction and the global
  phase \<open>0\<close>; the last line, \<^verbatim>\<open>qc.global_phase = -np.log(global_phase).imag\<close>,
  sets the attribute of the circuit that is returned, through the setter.
\<close>

definition xx_circuit_from_decomposition ::
  "externals \<Rightarrow> hop list \<Rightarrow> 'g operation_polytope list \<Rightarrow> error + 'g circuit" where
  "xx_circuit_from_decomposition ext decomposition operation_list =
     (case coordinate_table_from ext [] operation_list of
        Inl e \<Rightarrow> Inl e
      | Inr canonical_coordinate_table \<Rightarrow>
          if \<not> xx_interaction_type ext canonical_coordinate_table then Inl AssertionError
          else
     (case gate_table_from [] operation_list of
        Inl e \<Rightarrow> Inl e
      | Inr canonical_gate_table \<Rightarrow>
     (case decomposition of
        [] \<Rightarrow> Inr \<lparr> data = [], global_phase = 0 \<rparr>
      | first # later \<Rightarrow>
     (case first_hop canonical_gate_table first of
        Inl e \<Rightarrow> Inl e
      | Inr state \<Rightarrow>
     (case run_hops ext canonical_coordinate_table canonical_gate_table state later of
        Inl e \<Rightarrow> Inl e
      | Inr (qc, running_phase) \<Rightarrow>
          Inr \<lparr> data = qc,
                global_phase = global_phase_setter (- Im (np_log running_phase)) \<rparr>)))))"

subsection \<open>The specification's descriptions, for comparison with the code\<close>

text \<open>
  The nesting that the specification gives for a hop after the first, in its words:
  \<open>inverse(sourceAxisRotation) \<circ> inverse(sourceShift) \<circ> inverse(sourceReflection)
  \<circ> [Rz(2x), Rz(2y)] \<circ> nativeInteractionFragment \<circ> [Rz(2u), Rz(2v)] \<circ> previousCircuit
  \<circ> [Rz(2r), Rz(2s)] \<circ> sourceReflection \<circ> sourceShift \<circ> sourceAxisRotation\<close>, the whole
  between \<open>inverse(targetAxisRotation)\<close> and \<open>targetAxisRotation\<close>. Read as a
  sequence in the order written, the leftmost fragment is applied first.
\<close>

definition spec_nesting ::
  "'g instruction list \<Rightarrow> 'g instruction list \<Rightarrow> 'g realization \<Rightarrow> 'g instruction list" where
  "spec_nesting previous native found =
     inverse_gates (permute_target_for_overlap found)
     @ inverse_gates (permute_source_for_overlap found)
     @ inverse_gates (source_shift found)
     @ inverse_gates (source_reflection found)
     @ [Rot RZGate (2 * angle_x found) 0, Rot RZGate (2 * angle_y found) 1]
     @ native
     @ [Rot RZGate (2 * angle_u found) 0, Rot RZGate (2 * angle_v found) 1]
     @ previous
     @ [Rot RZGate (2 * angle_r found) 0, Rot RZGate (2 * angle_s found) 1]
     @ source_reflection found
     @ source_shift found
     @ permute_source_for_overlap found
     @ permute_target_for_overlap found"

text \<open>
  The same nesting read as a composition of operators, where the rightmost fragment is
  applied first: the sequence of application is the one above with the order of the
  fragments reversed.
\<close>

definition spec_nesting_operator_order ::
  "'g instruction list \<Rightarrow> 'g instruction list \<Rightarrow> 'g realization \<Rightarrow> 'g instruction list" where
  "spec_nesting_operator_order previous native found =
     permute_target_for_overlap found
     @ permute_source_for_overlap found
     @ source_shift found
     @ source_reflection found
     @ [Rot RZGate (2 * angle_r found) 0, Rot RZGate (2 * angle_s found) 1]
     @ previous
     @ [Rot RZGate (2 * angle_u found) 0, Rot RZGate (2 * angle_v found) 1]
     @ native
     @ [Rot RZGate (2 * angle_x found) 0, Rot RZGate (2 * angle_y found) 1]
     @ inverse_gates (source_reflection found)
     @ inverse_gates (source_shift found)
     @ inverse_gates (permute_source_for_overlap found)
     @ inverse_gates (permute_target_for_overlap found)"

text \<open>
  The search as the specification describes it: the combinations of a reflection and a
  shift are tried one after the other in a fixed order, and the first one that does not
  say "try the next" decides.
\<close>

definition try_combination ::
  "externals \<Rightarrow> (string \<times> coord) list \<Rightarrow> string \<Rightarrow> coord \<Rightarrow> coord
   \<Rightarrow> reflection_name \<times> shift_name \<Rightarrow> error + 'g realization option" where
  "try_combination ext cct operation source target combination =
     (case apply_reflection (fst combination) source of
        (reflected_source_coord, source_reflection_circuit, reflection_phase) \<Rightarrow>
          try_shift ext cct operation target reflected_source_coord
            source_reflection_circuit reflection_phase (snd combination))"

fun first_outcome :: "(error + 'a option) list \<Rightarrow> error + 'a option" where
  "first_outcome [] = Inr None"
| "first_outcome (Inr None # outcomes) = first_outcome outcomes"
| "first_outcome (outcome # outcomes) = outcome"

text \<open>The source coordinate after a reflection and a shift, without the circuits.\<close>

definition symmetric_image :: "reflection_name \<Rightarrow> shift_name \<Rightarrow> coord \<Rightarrow> coord" where
  "symmetric_image rname sname source =
     fst (apply_shift sname
            (fst (apply_reflection rname source :: coord \<times> unit instruction list \<times> complex))
          :: coord \<times> unit instruction list \<times> complex)"



subsection \<open>A concrete environment and concrete inputs\<close>

text \<open>
  To run the program on concrete inputs the imported functions need values. This
  instance takes the identity for the coordinate transform, identity matrices for both
  matrix builders, and \<open>10\<^sup>-\<^sup>6\<close> for \<^verbatim>\<open>epsilon\<close>. The theorems below hold
  for every environment; only their instances at concrete inputs use this one.
\<close>

definition identity_matrix :: matrix where
  "identity_matrix = (\<lambda>i j. if i = j then 1 else 0)"

definition sample_externals :: externals where
  "sample_externals =
     \<lparr> alcove_to_positive_canonical_coordinate = (\<lambda>x y z. (x, y, z)),
       canonical_matrix = (\<lambda>args. identity_matrix),
       rz_matrix = (\<lambda>theta. identity_matrix),
       epsilon = 1 / 1000000 \<rparr>"

text \<open>
  A catalog entry whose equalities are \<open>x = a\<close>, \<open>y = b\<close>, \<open>z = c\<close>, written as the
  rows \<open>[-a, 1, 0, 0]\<close>, \<open>[-b, 0, 1, 0]\<close>, \<open>[-c, 0, 0, 1]\<close>.
\<close>

definition point_operation ::
  "string \<Rightarrow> real \<Rightarrow> real \<Rightarrow> real \<Rightarrow> 'g circuit \<Rightarrow> 'g operation_polytope" where
  "point_operation name a b c fragment =
     \<lparr> operations = [name],
       convex_subpolytopes = [[[- a, 1, 0, 0], [- b, 0, 1, 0], [- c, 0, 0, 1]]],
       canonical_circuit = fragment \<rparr>"

text \<open>
  A native fragment of one opaque gate, whose own global phase is \<open>\<pi>/2\<close>; a
  catalog with the one XX-type entry \<open>g\<close> at \<open>(\<pi>/4, 0, 0)\<close>; and an entry
  \<open>h\<close> at \<open>(1/4, 1/4, 1/4)\<close>, which is not of XX type.
\<close>

definition sample_fragment :: "string circuit" where
  "sample_fragment = \<lparr> data = [Ext ''g''], global_phase = pi / 2 \<rparr>"

definition sample_catalog :: "string operation_polytope list" where
  "sample_catalog = [point_operation ''g'' (pi / 4) 0 0 sample_fragment]"

definition non_xx_operation :: "string \<Rightarrow> string operation_polytope" where
  "non_xx_operation name = point_operation name (1 / 4) (1 / 4) (1 / 4) sample_fragment"

text \<open>
  A path of two hops: the first with the coordinate parameter \<open>0.3\<close>, the second from
  \<open>(0, \<pi>/4, 0)\<close> to \<open>(0, \<pi>/2, 0)\<close>; the circuit after the first hop and the
  realization the search stops at on the second hop.
\<close>

definition sample_first_hop :: hop where
  "sample_first_hop = ((0, 0, 0), ''g'', (3 / 10, 0, 0))"

definition sample_wrapped :: "string instruction list" where
  "sample_wrapped =
     [Rot RZGate pi 0, Ext ''g'', Rot RZGate (- pi) 0, Rot RXGate pi 0, Rot RXGate pi 1]"

definition sample_second_hop :: hop where
  "sample_second_hop = ((0, pi / 4, 0), ''g'', (0, pi / 2, 0))"

definition sample_found :: "string realization" where
  "sample_found =
     \<lparr> source_reflection = [], reflection_phase_shift = 1,
       source_shift = [], shift_phase_shift = 1,
       permute_source_for_overlap = canonical_rotation_circuit 1 2,
       permute_target_for_overlap = canonical_rotation_circuit 1 2,
       angle_r = pi / 4, angle_s = 0, angle_u = 0, angle_v = 0,
       angle_x = - pi / 4, angle_y = 0 \<rparr>"




section \<open>Properties\<close>

subsection \<open>The axis rotation table\<close>

text \<open>
  Claim C10. \<^verbatim>\<open>canonical_rotation_circuit\<close> is total over all pairs of indices:
  for a pair that is none of the five ordered pairs with a non-empty branch (for example
  two equal indices) it returns the empty circuit, the same one as for the identity case
  \<open>(0, 1)\<close>; it raises nothing.
\<close>

theorem canonical_rotation_circuit_unhandled_empty:
  assumes "(first_index, second_index) \<notin> {(0, 2), (1, 0), (1, 2), (2, 0), (2, 1)}"
  shows "canonical_rotation_circuit first_index second_index = ([] :: 'g instruction list)
       \<and> canonical_rotation_circuit first_index second_index
           = (canonical_rotation_circuit 0 1 :: 'g instruction list)"
  using assms by (simp add: canonical_rotation_circuit_def)

theorem canonical_rotation_circuit_unhandled_empty_witness:
  "((1::int), (1::int)) \<notin> {(0, 2), (1, 0), (1, 2), (2, 0), (2, 1)}
   \<and> canonical_rotation_circuit 1 1 = ([] :: unit instruction list)
   \<and> canonical_rotation_circuit 1 1 = (canonical_rotation_circuit 0 1 :: unit instruction list)"
  using canonical_rotation_circuit_unhandled_empty [of 1 1, where 'g = unit]
  by (simp add: canonical_rotation_circuit_def)


subsection \<open>\<^verbatim>\<open>nearp\<close>: nearness up to wraparound\<close>

lemma np_mod_range:
  assumes "0 < m"
  shows "np_mod x m = Some (x - m * of_int \<lfloor>x / m\<rfloor>)"
    and "0 \<le> x - m * of_int \<lfloor>x / m\<rfloor>"
    and "x - m * of_int \<lfloor>x / m\<rfloor> < m"
proof -
  show "np_mod x m = Some (x - m * of_int \<lfloor>x / m\<rfloor>)"
    using assms by (simp add: np_mod_def)
  have "of_int \<lfloor>x / m\<rfloor> \<le> x / m" by simp
  then have "of_int \<lfloor>x / m\<rfloor> * m \<le> x"
    using assms by (simp only: pos_le_divide_eq)
  then have "m * of_int \<lfloor>x / m\<rfloor> \<le> x" by (simp add: mult.commute)
  then show "0 \<le> x - m * of_int \<lfloor>x / m\<rfloor>" by simp
  have "x / m < of_int \<lfloor>x / m\<rfloor> + 1" by linarith
  then have "x < (of_int \<lfloor>x / m\<rfloor> + 1) * m"
    using assms by (simp only: pos_divide_less_eq)
  then show "x - m * of_int \<lfloor>x / m\<rfloor> < m" by (simp add: algebra_simps)
qed

lemma np_mod_small:
  assumes "0 < m" "0 \<le> x" "x < m"
  shows "np_mod x m = Some x"
proof -
  from assms have "\<lfloor>x / m\<rfloor> = 0" by (simp add: floor_eq_iff)
  with assms show ?thesis by (simp add: np_mod_def)
qed

text \<open>The remainder of the distance decides: \<open>r\<close> or \<open>m - r\<close> is below the tolerance.\<close>

lemma nearp_remainder:
  assumes "0 < m"
  shows "nearp x y m e \<longleftrightarrow>
           (let r = \<bar>x - y\<bar> - m * of_int \<lfloor>\<bar>x - y\<bar> / m\<rfloor> in r < e \<or> m - r < e)"
  using np_mod_range [OF assms, of "\<bar>x - y\<bar>"] by (auto simp: nearp_def Let_def)

lemma nearp_iff_multiple:
  assumes "0 < m"
  shows "nearp x y m e \<longleftrightarrow> (\<exists>k::int. \<bar>x - y - of_int k * m\<bar> < e)"
proof -
  define d where "d = \<bar>x - y\<bar>"
  define q where "q = \<lfloor>d / m\<rfloor>"
  define r where "r = d - m * of_int q"
  have r: "0 \<le> r" "r < m"
    using np_mod_range [OF assms, of d] by (simp_all add: r_def q_def)
  have near: "nearp x y m e \<longleftrightarrow> r < e \<or> m - r < e"
    using nearp_remainder [OF assms, of x y e] by (simp add: Let_def r_def q_def d_def)
  have shift: "(\<exists>k::int. \<bar>x - y - of_int k * m\<bar> < e) \<longleftrightarrow> (\<exists>j::int. \<bar>r + of_int j * m\<bar> < e)"
  proof
    assume "\<exists>k::int. \<bar>x - y - of_int k * m\<bar> < e"
    then obtain k :: int where k: "\<bar>x - y - of_int k * m\<bar> < e" by blast
    show "\<exists>j::int. \<bar>r + of_int j * m\<bar> < e"
    proof (cases "y \<le> x")
      case True
      then have "x - y - of_int k * m = r + of_int (q - k) * m"
        by (simp add: r_def d_def algebra_simps)
      with k show ?thesis by metis
    next
      case False
      then have "- (x - y - of_int k * m) = r + of_int (q + k) * m"
        by (simp add: r_def d_def algebra_simps)
      with k show ?thesis by (metis abs_minus_cancel)
    qed
  next
    assume "\<exists>j::int. \<bar>r + of_int j * m\<bar> < e"
    then obtain j :: int where j: "\<bar>r + of_int j * m\<bar> < e" by blast
    show "\<exists>k::int. \<bar>x - y - of_int k * m\<bar> < e"
    proof (cases "y \<le> x")
      case True
      then have "x - y - of_int (q - j) * m = r + of_int j * m"
        by (simp add: r_def d_def algebra_simps)
      with j show ?thesis by metis
    next
      case False
      then have "- (x - y - of_int (j - q) * m) = r + of_int j * m"
        by (simp add: r_def d_def algebra_simps)
      with j show ?thesis by (metis abs_minus_cancel)
    qed
  qed
  have "(\<exists>j::int. \<bar>r + of_int j * m\<bar> < e) \<longleftrightarrow> r < e \<or> m - r < e"
  proof
    assume "\<exists>j::int. \<bar>r + of_int j * m\<bar> < e"
    then obtain j :: int where j: "\<bar>r + of_int j * m\<bar> < e" by blast
    consider "j \<ge> 0" | "j \<le> -1" by linarith
    then show "r < e \<or> m - r < e"
    proof cases
      case 1
      then have "0 \<le> of_int j * m" using assms by simp
      with j r show ?thesis by linarith
    next
      case 2
      then have "(of_int j :: real) \<le> -1" by linarith
      then have "of_int j * m \<le> (-1) * m"
        using assms by (intro mult_right_mono) simp_all
      with j r show ?thesis by linarith
    qed
  next
    assume "r < e \<or> m - r < e"
    then show "\<exists>j::int. \<bar>r + of_int j * m\<bar> < e"
    proof
      assume "r < e"
      then have "\<bar>r + of_int 0 * m\<bar> < e" using r by simp
      then show ?thesis by blast
    next
      assume "m - r < e"
      then have "\<bar>r + of_int (-1) * m\<bar> < e" using r by simp
      then show ?thesis by blast
    qed
  qed
  with near shift show ?thesis by simp
qed

lemma not_nearp_hundredth_wrap: "\<not> nearp (1 / 100) (pi / 2 - 1 / 100) (pi / 2) (1 / 100)"
proof -
  have p: "2 \<le> pi" by (rule pi_ge_two)
  have "\<bar>1 / 100 - (pi / 2 - 1 / 100)\<bar> = pi / 2 - 2 / 100" using p by simp
  moreover have "np_mod (pi / 2 - 2 / 100) (pi / 2) = Some (pi / 2 - 2 / 100)"
    using p by (intro np_mod_small) simp_all
  ultimately show ?thesis using p by (simp add: nearp_def)
qed

lemma nearp_thousandth_wrap: "nearp (1 / 1000) (pi / 2 - 1 / 1000) (pi / 2) (1 / 100)"
proof -
  have p: "2 \<le> pi" by (rule pi_ge_two)
  have "\<bar>1 / 1000 - (pi / 2 - 1 / 1000)\<bar> = pi / 2 - 2 / 1000" using p by simp
  moreover have "np_mod (pi / 2 - 2 / 1000) (pi / 2) = Some (pi / 2 - 2 / 1000)"
    using p by (intro np_mod_small) simp_all
  ultimately show ?thesis using p by (simp add: nearp_def)
qed

lemma not_nearp_quarter: "\<not> nearp 0 (pi / 4) (pi / 2) (1 / 100)"
proof -
  have p: "2 \<le> pi" by (rule pi_ge_two)
  have "np_mod (pi / 4) (pi / 2) = Some (pi / 4)"
    using p by (intro np_mod_small) simp_all
  then show ?thesis using p by (simp add: nearp_def)
qed

text \<open>
  Claim C6, as amended. For a positive modulus, \<^verbatim>\<open>nearp(x, y, modulus, epsilon)\<close>
  is true exactly when \<open>x\<close> and \<open>y\<close> differ from a whole multiple of the modulus by
  less than the tolerance, so the wraparound at the boundary of the modulus counts. The
  two points \<open>0.01\<close> and \<open>\<pi>/2 - 0.01\<close> are \<open>0.02\<close> apart across the wrap, which
  is not below the tolerance \<open>0.01\<close>: \<^verbatim>\<open>nearp\<close> is false on them. It is true on
  \<open>0.001\<close> and \<open>\<pi>/2 - 0.001\<close>, and false on \<open>0\<close> and \<open>\<pi>/4\<close>.
\<close>

theorem nearp_wraparound:
  "(0 < m \<longrightarrow> (nearp x y m e \<longleftrightarrow> (\<exists>k::int. \<bar>x - y - of_int k * m\<bar> < e)))
   \<and> \<not> nearp (1 / 100) (pi / 2 - 1 / 100) (pi / 2) (1 / 100)
   \<and> nearp (1 / 1000) (pi / 2 - 1 / 1000) (pi / 2) (1 / 100)
   \<and> \<not> nearp 0 (pi / 4) (pi / 2) (1 / 100)"
  using nearp_iff_multiple [of m x y e] not_nearp_hundredth_wrap nearp_thousandth_wrap
    not_nearp_quarter
  by blast

theorem nearp_wraparound_witness:
  "(0::real) < pi / 2
   \<and> (nearp (1 / 1000) (pi / 2 - 1 / 1000) (pi / 2) (1 / 100)
        \<longleftrightarrow> (\<exists>k::int. \<bar>1 / 1000 - (pi / 2 - 1 / 1000) - of_int k * (pi / 2)\<bar> < 1 / 100))
   \<and> nearp (1 / 1000) (pi / 2 - 1 / 1000) (pi / 2) (1 / 100)"
  using nearp_wraparound [of "pi / 2" "1 / 1000" "pi / 2 - 1 / 1000" "1 / 100"]
    pi_half_gt_zero
  by blast

text \<open>
  Claim C6 as the specification states it fails: it says that
  \<^verbatim>\<open>near(0.01, \<pi>/2 - 0.01, modulus=\<pi>/2, tolerance=1e-2)\<close> is true.
\<close>

theorem nearp_wraparound_counterexample:
  "nearp (1 / 100) (pi / 2 - 1 / 100) (pi / 2) (1 / 100) = False"
  using not_nearp_hundredth_wrap by simp

subsection \<open>\<^verbatim>\<open>safe_arccos\<close>: the degenerate ratios\<close>

lemma safe_arccos_just_outside:
  assumes "\<bar>n\<bar> = \<bar>d\<bar> + 1 / 1000"
  shows "safe_arccos n d = Some (if \<bar>n - d\<bar> < 5 / 1000 then 0 else pi)"
proof -
  have gt: "\<bar>n\<bar> > \<bar>d\<bar>" using assms by simp
  have "\<bar>n - d\<bar> = 1 / 1000 \<or> \<bar>n + d\<bar> = 1 / 1000"
    using assms by (simp add: abs_if split: if_splits)
  then have "\<bar>n - d\<bar> < 5 / 1000 \<or> \<bar>n + d\<bar> < 5 / 1000" by linarith
  then show ?thesis using gt by (auto simp: safe_arccos_def Let_def)
qed

lemma safe_arccos_same_sign:
  assumes "\<bar>n\<bar> = \<bar>d\<bar> + 1 / 1000" "0 \<le> n * d"
  shows "safe_arccos n d = Some 0"
proof -
  from assms(2) have "(0 \<le> n \<and> 0 \<le> d) \<or> (n \<le> 0 \<and> d \<le> 0)"
    by (simp add: zero_le_mult_iff)
  then show ?thesis using assms(1) by (auto simp: safe_arccos_def Let_def)
qed

lemma safe_arccos_inside:
  assumes "\<bar>n\<bar> \<le> \<bar>d\<bar>" "d \<noteq> 0"
  shows "safe_arccos n d = Some (arccos (n / d))"
proof -
  from assms have "\<bar>n / d\<bar> \<le> 1" by simp
  with assms show ?thesis by (auto simp: safe_arccos_def np_arccos_ratio_def Let_def)
qed

text \<open>
  Claim C5, as amended. For every pair with \<open>|n| = |d| + 0.001\<close> the function returns
  exactly \<open>0\<close> or exactly \<open>\<pi>\<close> and never NaN: \<open>0\<close> when \<open>|n - d| < 0.005\<close>, in
  particular when \<open>n\<close> and \<open>d\<close> have the same sign, and \<open>\<pi>\<close> otherwise. For every
  pair with \<open>|n| \<le> |d|\<close> and \<open>d\<close> non-zero, which includes \<open>|n| = |d| - 0.001\<close>, it
  returns \<open>arccos (n / d)\<close>, which is not NaN; so \<^verbatim>\<open>safe_arccos(0.5, 1.0)\<close> is
  \<open>arccos 0.5\<close>.
\<close>

theorem safe_arccos_degenerate:
  "(\<bar>n\<bar> = \<bar>d\<bar> + 1 / 1000 \<longrightarrow>
      safe_arccos n d = Some (if \<bar>n - d\<bar> < 5 / 1000 then 0 else pi)
      \<and> (0 \<le> n * d \<longrightarrow> safe_arccos n d = Some 0))
   \<and> (\<bar>n\<bar> \<le> \<bar>d\<bar> \<and> d \<noteq> 0 \<longrightarrow> safe_arccos n d = Some (arccos (n / d)))
   \<and> safe_arccos (5 / 10) 1 = Some (arccos (5 / 10))"
  using safe_arccos_just_outside [of n d] safe_arccos_same_sign [of n d]
    safe_arccos_inside [of n d] safe_arccos_inside [of "5 / 10" 1]
  by simp

theorem safe_arccos_degenerate_witness:
  "\<bar>1001 / 1000 :: real\<bar> = \<bar>1\<bar> + 1 / 1000
   \<and> (0::real) \<le> 1001 / 1000 * 1
   \<and> safe_arccos (1001 / 1000) 1 = Some 0
   \<and> \<bar>999 / 1000 :: real\<bar> \<le> \<bar>1\<bar> \<and> (1::real) \<noteq> 0
   \<and> safe_arccos (999 / 1000) 1 = Some (arccos (999 / 1000))"
  using safe_arccos_degenerate [of "1001 / 1000" 1] safe_arccos_degenerate [of "999 / 1000" 1]
  by simp

text \<open>
  Claim C5 as the specification states it fails on the inner side of the boundary: at
  \<open>n = 0.999\<close>, \<open>d = 1\<close>, where \<open>|n| = |d| - 0.001\<close>, the result is
  \<open>arccos 0.999\<close>, which is neither \<open>0\<close> nor \<open>\<pi>\<close>.
\<close>

theorem safe_arccos_degenerate_counterexample:
  "\<bar>999 / 1000 :: real\<bar> = \<bar>1\<bar> - 1 / 1000 \<and> (1::real) \<noteq> 0
   \<and> safe_arccos (999 / 1000) 1 \<noteq> Some 0
   \<and> safe_arccos (999 / 1000) 1 \<noteq> Some pi"
proof -
  have "arccos (999 / 1000) \<noteq> 0" using arccos_eq_0_iff [of "999 / 1000"] by simp
  moreover have "arccos (999 / 1000) \<noteq> pi" using arccos_eq_pi_iff [of "999 / 1000"] by simp
  ultimately show ?thesis by (simp add: safe_arccos_def np_arccos_ratio_def)
qed

subsection \<open>The tables built from the catalog\<close>

lemma coordinate_item_key:
  "coordinate_item ext operation = Inr (key, c) \<Longrightarrow> list_at (operations operation) 0 = Inr key"
  by (auto simp: coordinate_item_def split: sum.splits)

lemma gate_table_from_succeeds:
  "coordinate_table_from ext table operation_list = Inr cct
   \<Longrightarrow> \<exists>cgt. gate_table_from table' operation_list = Inr cgt"
proof (induction operation_list arbitrary: table table')
  case Nil
  show ?case by simp
next
  case (Cons operation rest)
  from Cons.prems obtain key c where
    item: "coordinate_item ext operation = Inr (key, c)"
    and rest: "coordinate_table_from ext (AList.update key c table) rest = Inr cct"
    by (auto split: sum.splits)
  from Cons.IH [OF rest] coordinate_item_key [OF item] show ?case by simp
qed

lemma coordinate_table_from_append:
  "coordinate_table_from ext table (xs @ ys) =
     (case coordinate_table_from ext table xs of
        Inl e \<Rightarrow> Inl e
      | Inr table' \<Rightarrow> coordinate_table_from ext table' ys)"
  by (induction xs arbitrary: table) (auto split: sum.splits)

lemma coordinate_table_from_keeps:
  assumes "coordinate_table_from ext table operation_list = Inr cct"
      and "\<forall>operation\<in>set operation_list. \<forall>c. coordinate_item ext operation \<noteq> Inr (key, c)"
  shows "map_of cct key = map_of table key"
  using assms
proof (induction operation_list arbitrary: table)
  case Nil
  then show ?case by simp
next
  case (Cons operation rest)
  from Cons.prems(1) obtain k c where
    item: "coordinate_item ext operation = Inr (k, c)"
    and rest: "coordinate_table_from ext (AList.update k c table) rest = Inr cct"
    by (auto split: sum.splits)
  from item Cons.prems(2) have "k \<noteq> key" by (metis list.set_intros(1))
  moreover from Cons.prems(2) have
    "\<forall>operation\<in>set rest. \<forall>c. coordinate_item ext operation \<noteq> Inr (key, c)" by simp
  ultimately show ?case using Cons.IH [OF rest] by (simp add: update_conv')
qed

lemma coordinate_table_from_lookup:
  assumes "coordinate_table_from ext table (before @ operation # after) = Inr cct"
      and "coordinate_item ext operation = Inr (key, c)"
      and "\<forall>later\<in>set after. \<forall>c'. coordinate_item ext later \<noteq> Inr (key, c')"
  shows "map_of cct key = Some c"
proof -
  from assms(1) obtain table' where
    "coordinate_table_from ext table' (operation # after) = Inr cct"
    by (auto simp: coordinate_table_from_append split: sum.splits)
  with assms(2) have "coordinate_table_from ext (AList.update key c table') after = Inr cct"
    by simp
  from coordinate_table_from_keeps [OF this assms(3)] show ?thesis
    by (simp add: update_conv')
qed

lemma xx_interaction_type_lookup:
  assumes "xx_interaction_type ext cct" "map_of cct key = Some c"
  shows "\<bar>coord_nth c 1\<bar> < epsilon ext \<and> \<bar>coord_nth c 2\<bar> < epsilon ext"
proof -
  from assms(2) have "(key, c) \<in> set cct" by (rule map_of_SomeD)
  then have "c \<in> set (map snd cct)" by force
  with assms(1) show ?thesis by (auto simp: xx_interaction_type_def list_all_iff)
qed

text \<open>
  Claim C9, as amended. The coordinate table is built from the whole catalog and the
  XX-type assertion is evaluated on all its values before the empty-path test and before
  any hop. Hence, when the coordinate of every entry can be extracted, a catalog with an
  entry that is not of XX type, and whose key is not taken again by a later entry, makes
  the call fail with \<^verbatim>\<open>AssertionError\<close> for every decomposition path: the empty
  one, and one that never uses that entry.
\<close>

theorem assertion_precedes_path:
  assumes "coordinate_table_from ext [] (before @ operation # after) = Inr cct"
      and "coordinate_item ext operation = Inr (key, c)"
      and "\<forall>later\<in>set after. \<forall>c'. coordinate_item ext later \<noteq> Inr (key, c')"
      and "\<not> (\<bar>coord_nth c 1\<bar> < epsilon ext \<and> \<bar>coord_nth c 2\<bar> < epsilon ext)"
  shows "xx_circuit_from_decomposition ext decomposition (before @ operation # after)
           = Inl AssertionError"
proof -
  have "map_of cct key = Some c"
    using coordinate_table_from_lookup [OF assms(1-3)] .
  with assms(4) have "\<not> xx_interaction_type ext cct"
    using xx_interaction_type_lookup by blast
  with assms(1) show ?thesis by (simp add: xx_circuit_from_decomposition_def)
qed

text \<open>
  Claim C7, as amended. For every catalog whose coordinate table can be built and passes
  the XX-type assertion, the empty decomposition path gives the empty circuit with the
  global phase \<open>0\<close>.
\<close>

theorem empty_path_empty_circuit:
  assumes "coordinate_table_from ext [] operation_list = Inr cct"
      and "xx_interaction_type ext cct"
  shows "xx_circuit_from_decomposition ext [] operation_list
           = Inr \<lparr> data = [], global_phase = 0 \<rparr>"
proof -
  from gate_table_from_succeeds [OF assms(1)] obtain cgt where
    "gate_table_from [] operation_list = Inr (cgt :: (string \<times> 'a circuit) list)" by blast
  with assms show ?thesis by (simp add: xx_circuit_from_decomposition_def)
qed

lemma coordinate_item_point:
  "coordinate_item ext (point_operation name a b c fragment)
     = Inr (name, alcove_to_positive_canonical_coordinate ext a b c)"
  by (simp add: coordinate_item_def point_operation_def list_at_def)

lemma sample_tables:
  "coordinate_table_from sample_externals [] sample_catalog = Inr [(''g'', (pi / 4, 0, 0))]"
  "gate_table_from [] sample_catalog = Inr [(''g'', sample_fragment)]"
  "xx_interaction_type sample_externals [(''g'', (pi / 4, 0, 0))]"
  by (simp_all add: sample_catalog_def coordinate_item_point xx_interaction_type_def list_at_def,
      simp_all add: sample_externals_def point_operation_def)

theorem empty_path_empty_circuit_witness:
  "coordinate_table_from sample_externals [] sample_catalog = Inr [(''g'', (pi / 4, 0, 0))]
   \<and> xx_interaction_type sample_externals [(''g'', (pi / 4, 0, 0))]
   \<and> xx_circuit_from_decomposition sample_externals [] sample_catalog
        = Inr \<lparr> data = [], global_phase = 0 \<rparr>"
  using empty_path_empty_circuit [OF sample_tables(1) sample_tables(3)] sample_tables
  by simp

lemma non_xx_tables:
  "coordinate_table_from sample_externals [] [non_xx_operation ''h'']
     = Inr [(''h'', (1 / 4, 1 / 4, 1 / 4))]"
  by (simp add: non_xx_operation_def coordinate_item_point, simp add: sample_externals_def)

text \<open>
  Claim C7 as the specification states it, for every catalog, fails: the assertion comes
  before the test for the empty path, so a catalog with an entry that is not of XX type
  raises \<^verbatim>\<open>AssertionError\<close> on the empty path.
\<close>

theorem empty_path_empty_circuit_counterexample:
  "xx_circuit_from_decomposition sample_externals [] [non_xx_operation ''h'']
     = Inl AssertionError"
proof -
  have "\<not> xx_interaction_type sample_externals [(''h'', (1 / 4, 1 / 4, 1 / 4))]"
    by (simp add: xx_interaction_type_def sample_externals_def)
  then show ?thesis
    unfolding xx_circuit_from_decomposition_def non_xx_tables by simp
qed

lemma mixed_catalog_item:
  "coordinate_item sample_externals (non_xx_operation ''h'') = Inr (''h'', (1 / 4, 1 / 4, 1 / 4))"
  by (simp add: non_xx_operation_def coordinate_item_point, simp add: sample_externals_def)

lemma mixed_catalog_table:
  "coordinate_table_from sample_externals [] ([] @ non_xx_operation ''h'' # sample_catalog)
     = Inr [(''h'', (1 / 4, 1 / 4, 1 / 4)), (''g'', (pi / 4, 0, 0))]"
  by (simp add: mixed_catalog_item sample_catalog_def coordinate_item_point,
      simp add: sample_externals_def)

lemma sample_catalog_other_key:
  "\<forall>later\<in>set sample_catalog. \<forall>c'. coordinate_item sample_externals later \<noteq> Inr (''h'', c')"
  by (simp add: sample_catalog_def coordinate_item_point)

theorem assertion_precedes_path_witness:
  "coordinate_table_from sample_externals [] ([] @ non_xx_operation ''h'' # sample_catalog)
     = Inr [(''h'', (1 / 4, 1 / 4, 1 / 4)), (''g'', (pi / 4, 0, 0))]
   \<and> coordinate_item sample_externals (non_xx_operation ''h'') = Inr (''h'', (1 / 4, 1 / 4, 1 / 4))
   \<and> \<not> (\<bar>coord_nth (1 / 4, 1 / 4, 1 / 4) 1\<bar> < epsilon sample_externals
          \<and> \<bar>coord_nth (1 / 4, 1 / 4, 1 / 4) 2\<bar> < epsilon sample_externals)
   \<and> xx_circuit_from_decomposition sample_externals []
        ([] @ non_xx_operation ''h'' # sample_catalog) = Inl AssertionError
   \<and> xx_circuit_from_decomposition sample_externals [sample_first_hop]
        ([] @ non_xx_operation ''h'' # sample_catalog) = Inl AssertionError"
proof -
  have bad: "\<not> (\<bar>coord_nth (1 / 4, 1 / 4, 1 / 4) 1\<bar> < epsilon sample_externals
          \<and> \<bar>coord_nth (1 / 4, 1 / 4, 1 / 4) 2\<bar> < epsilon sample_externals)"
    by (simp add: sample_externals_def)
  show ?thesis
    using assertion_precedes_path [OF mixed_catalog_table mixed_catalog_item
        sample_catalog_other_key bad]
      mixed_catalog_table mixed_catalog_item bad
    by blast
qed

text \<open>
  Claim C9 as stated, for any entry that is not of XX type, fails when a later entry has
  the same first operation name: the dictionary keeps the later coordinate only, the
  assertion passes, and the empty path returns the empty circuit.
\<close>

theorem assertion_precedes_path_counterexample:
  "xx_circuit_from_decomposition sample_externals []
     [non_xx_operation ''g'', point_operation ''g'' (pi / 4) 0 0 sample_fragment]
     = Inr \<lparr> data = [], global_phase = 0 \<rparr>"
  by (simp add: xx_circuit_from_decomposition_def non_xx_operation_def coordinate_item_point
        xx_interaction_type_def list_at_def,
      simp add: sample_externals_def point_operation_def)

subsection \<open>The order of the search\<close>

lemma first_outcome_append:
  "first_outcome (xs @ ys) = (case first_outcome xs of Inr None \<Rightarrow> first_outcome ys | r \<Rightarrow> r)"
  by (induction xs rule: first_outcome.induct) (auto split: sum.splits option.splits)

lemma first_outcome_all_skip:
  "\<forall>outcome\<in>set outcomes. outcome = Inr None \<Longrightarrow> first_outcome outcomes = Inr None"
  by (induction outcomes) simp_all

lemma shift_loop_first_outcome:
  "shift_loop ext cct operation target reflected circ phase names =
     first_outcome (map (try_shift ext cct operation target reflected circ phase) names)"
proof (induction names)
  case Nil
  show ?case by simp
next
  case (Cons name names)
  show ?case
  proof (cases "try_shift ext cct operation target reflected circ phase name")
    case (Inl e)
    then show ?thesis by simp
  next
    case (Inr found)
    then show ?thesis using Cons by (cases found) simp_all
  qed
qed

lemma reflection_loop_first_outcome:
  "reflection_loop ext cct operation source target names =
     first_outcome (map (try_combination ext cct operation source target)
                        (List.product names shift_names))"
proof (induction names)
  case Nil
  show ?case by simp
next
  case (Cons name names)
  obtain reflected circ phase where
    ar: "apply_reflection name source = (reflected, circ :: 'a instruction list, phase)"
    by (cases "apply_reflection name source :: coord \<times> 'a instruction list \<times> complex") auto
  have step: "reflection_loop ext cct operation source target (name # names) =
      (case shift_loop ext cct operation target reflected circ phase shift_names of
         Inr None \<Rightarrow> reflection_loop ext cct operation source target names
       | r \<Rightarrow> r)"
    by (simp add: ar split: sum.splits option.splits)
  have prod: "map (try_combination ext cct operation source target)
                  (List.product (name # names) shift_names)
       = map (try_shift ext cct operation target reflected circ phase) shift_names
         @ map (try_combination ext cct operation source target)
               (List.product names shift_names)"
    by (simp add: try_combination_def ar comp_def)
  show ?case
    by (simp only: step prod first_outcome_append shift_loop_first_outcome Cons)
qed

lemma combinations_in_order:
  "List.product reflection_names shift_names =
    [(NoReflection, NoShift), (NoReflection, ZShift), (NoReflection, YShift),
     (NoReflection, YZShift), (NoReflection, XShift), (NoReflection, XZShift),
     (NoReflection, XYShift), (NoReflection, XYZShift),
     (ReflectXXYY, NoShift), (ReflectXXYY, ZShift), (ReflectXXYY, YShift),
     (ReflectXXYY, YZShift), (ReflectXXYY, XShift), (ReflectXXYY, XZShift),
     (ReflectXXYY, XYShift), (ReflectXXYY, XYZShift),
     (ReflectXXZZ, NoShift), (ReflectXXZZ, ZShift), (ReflectXXZZ, YShift),
     (ReflectXXZZ, YZShift), (ReflectXXZZ, XShift), (ReflectXXZZ, XZShift),
     (ReflectXXZZ, XYShift), (ReflectXXZZ, XYZShift),
     (ReflectYYZZ, NoShift), (ReflectYYZZ, ZShift), (ReflectYYZZ, YShift),
     (ReflectYYZZ, YZShift), (ReflectYYZZ, XShift), (ReflectYYZZ, XZShift),
     (ReflectYYZZ, XYShift), (ReflectYYZZ, XYZShift)]"
  by (simp add: reflection_names_def shift_names_def)

text \<open>
  Claim C8. The synthesis is a function of the decomposition path and the catalog (and of
  the imported functions), so two calls with the same inputs give the same circuit and
  the same phase angle. What fixes the result when several combinations are valid is the
  order of the search: the two nested loops try the \<open>4 \<times> 8 = 32\<close> combinations of a
  reflection and a shift in the order of the two tables, reflections outermost, and stop
  at the first combination that does not say "try the next"; within a combination the
  nine axis pairs are scanned row by row and the first near pair is taken.
\<close>

theorem search_order_fixed:
  "search_hop ext cct ((sx, sy, sz), operation, (tx, ty, tz)) =
     first_outcome
       (map (try_combination ext cct operation
               (alcove_to_positive_canonical_coordinate ext sx sy sz)
               (alcove_to_positive_canonical_coordinate ext tx ty tz))
            (List.product reflection_names shift_names))
   \<and> length (List.product reflection_names shift_names) = 32
   \<and> List.product reflection_names shift_names =
       [(NoReflection, NoShift), (NoReflection, ZShift), (NoReflection, YShift),
        (NoReflection, YZShift), (NoReflection, XShift), (NoReflection, XZShift),
        (NoReflection, XYShift), (NoReflection, XYZShift),
        (ReflectXXYY, NoShift), (ReflectXXYY, ZShift), (ReflectXXYY, YShift),
        (ReflectXXYY, YZShift), (ReflectXXYY, XShift), (ReflectXXYY, XZShift),
        (ReflectXXYY, XYShift), (ReflectXXYY, XYZShift),
        (ReflectXXZZ, NoShift), (ReflectXXZZ, ZShift), (ReflectXXZZ, YShift),
        (ReflectXXZZ, YZShift), (ReflectXXZZ, XShift), (ReflectXXZZ, XZShift),
        (ReflectXXZZ, XYShift), (ReflectXXZZ, XYZShift),
        (ReflectYYZZ, NoShift), (ReflectYYZZ, ZShift), (ReflectYYZZ, YShift),
        (ReflectYYZZ, YZShift), (ReflectYYZZ, XShift), (ReflectYYZZ, XZShift),
        (ReflectYYZZ, XYShift), (ReflectYYZZ, XYZShift)]
   \<and> shared_axes shifted target =
       find (\<lambda>(i, j). nearp (coord_nth shifted i) (coord_nth target j) pi (1 / 100))
            [(0, 0), (0, 1), (0, 2), (1, 0), (1, 1), (1, 2), (2, 0), (2, 1), (2, 2)]"
proof (intro conjI)
  show "search_hop ext cct ((sx, sy, sz), operation, (tx, ty, tz)) =
     first_outcome
       (map (try_combination ext cct operation
               (alcove_to_positive_canonical_coordinate ext sx sy sz)
               (alcove_to_positive_canonical_coordinate ext tx ty tz))
            (List.product reflection_names shift_names))"
    by (simp add: search_hop_def reflection_loop_first_outcome)
  show "length (List.product reflection_names shift_names) = 32"
    by (simp add: reflection_names_def shift_names_def)
  show "shared_axes shifted target =
       find (\<lambda>(i, j). nearp (coord_nth shifted i) (coord_nth target j) pi (1 / 100))
            [(0, 0), (0, 1), (0, 2), (1, 0), (1, 1), (1, 2), (2, 0), (2, 1), (2, 2)]"
    by (simp only: shared_axes_def axis_pairs_def)
qed (rule combinations_in_order)

subsection \<open>The assembler\<close>

lemma assemble_hop_flat:
  "assemble_hop qc native found =
     inverse_gates (permute_target_for_overlap found)
     @ [Rot RZGate (2 * angle_x found) 0, Rot RZGate (2 * angle_y found) 1]
     @ native
     @ [Rot RZGate (2 * angle_u found) 0, Rot RZGate (2 * angle_v found) 1]
     @ permute_source_for_overlap found
     @ source_reflection found
     @ qc
     @ inverse_gates (source_reflection found)
     @ source_shift found
     @ inverse_gates (permute_source_for_overlap found)
     @ [Rot RZGate (2 * angle_r found) 0, Rot RZGate (2 * angle_s found) 1]
     @ permute_target_for_overlap found"
  by (simp add: assemble_hop_def Let_def)

lemma hop_step_Inr:
  assumes "hop_step ext cct cgt (qc, running_phase) h = Inr (qc', running_phase')"
  shows "\<exists>found native.
           search_hop ext cct h = Inr (Some found)
         \<and> map_of cgt (fst (snd h)) = Some native
         \<and> qc' = assemble_hop qc (data native) found
         \<and> running_phase' = running_phase * (reflection_phase_shift found * shift_phase_shift found)"
  using assms by (auto simp: hop_step_def split: sum.splits option.splits)

text \<open>
  Claim C1, as amended. For every hop after the first that is realized, the new circuit
  is, in the order of application: the inverse of the target axis rotation; \<open>Rz(2x)\<close>
  on wire 0 and \<open>Rz(2y)\<close> on wire 1; the native fragment; \<open>Rz(2u)\<close> and
  \<open>Rz(2v)\<close>; then the source axis rotation, the source reflection, the circuit built
  so far, the inverse of the source reflection, the source shift and the inverse of the
  source axis rotation; then \<open>Rz(2r)\<close> and \<open>Rz(2s)\<close>; and the target axis
  rotation. The reflection and the source axis rotation enclose the previous circuit as a
  pair of an operation and its inverse; the source shift is applied once, after the
  previous circuit, and its inverse does not occur.
\<close>

theorem hop_circuit_nesting:
  assumes "hop_step ext cct cgt (qc, running_phase) h = Inr (qc', running_phase')"
  shows "\<exists>found native.
           search_hop ext cct h = Inr (Some found)
         \<and> map_of cgt (fst (snd h)) = Some native
         \<and> qc' =
             inverse_gates (permute_target_for_overlap found)
             @ [Rot RZGate (2 * angle_x found) 0, Rot RZGate (2 * angle_y found) 1]
             @ data native
             @ [Rot RZGate (2 * angle_u found) 0, Rot RZGate (2 * angle_v found) 1]
             @ permute_source_for_overlap found
             @ source_reflection found
             @ qc
             @ inverse_gates (source_reflection found)
             @ source_shift found
             @ inverse_gates (permute_source_for_overlap found)
             @ [Rot RZGate (2 * angle_r found) 0, Rot RZGate (2 * angle_s found) 1]
             @ permute_target_for_overlap found"
  using hop_step_Inr [OF assms] assemble_hop_flat by metis

subsection \<open>The first hop\<close>

lemma Arg_one: "Arg 1 = 0"
  by (rule cis_Arg_unique) (simp_all add: sgn_eq)

lemma np_log_phases:
  "- Im (np_log 1) = 0" "- Im (np_log (- \<i>)) = pi / 2" "- Im (np_log \<i>) = - (pi / 2)"
  by (simp_all add: np_log_def Arg_one)

lemma global_phase_setter_reduced:
  assumes "0 \<le> angle" "angle < 2 * pi"
  shows "global_phase_setter angle = angle"
proof -
  from assms have "\<lfloor>angle / (2 * pi)\<rfloor> = 0" by (simp add: floor_eq_iff)
  then show ?thesis by (simp add: global_phase_setter_def)
qed

lemma global_phase_setter_values:
  "global_phase_setter (- Im (np_log 1)) = 0"
  "global_phase_setter (- Im (np_log (- \<i>))) = pi / 2"
  "global_phase_setter (- Im (np_log \<i>)) = 3 * pi / 2"
proof -
  show "global_phase_setter (- Im (np_log 1)) = 0"
    by (simp add: np_log_phases global_phase_setter_def)
  have "global_phase_setter (pi / 2) = pi / 2"
    by (rule global_phase_setter_reduced) simp_all
  then show "global_phase_setter (- Im (np_log (- \<i>))) = pi / 2"
    by (simp only: np_log_phases)
  have "- (pi / 2) / (2 * pi) = - (1 / 4 :: real)" by simp
  then have "\<lfloor>- (pi / 2) / (2 * pi)\<rfloor> = - 1" by (simp add: floor_eq_iff)
  then have "global_phase_setter (- (pi / 2)) = 3 * pi / 2"
    by (simp add: global_phase_setter_def)
  then show "global_phase_setter (- Im (np_log \<i>)) = 3 * pi / 2"
    by (simp only: np_log_phases)
qed

lemma first_hop_cases:
  assumes "map_of cgt operation = Some native"
  shows "first_hop cgt (source, operation, target) =
           (if coord_nth target 0 \<le> 1 / 4 then Inr (data native, 1)
            else Inr ([Rot RZGate pi 0] @ data native @ [Rot RZGate (- pi) 0]
                        @ [Rot RXGate pi 0, Rot RXGate pi 1],
                      fst (snd (shift_options XShift))
                        * fst (snd (reflection_options ReflectXXYY))))"
  using assms
  by (simp add: first_hop_def apply_reflection_def apply_shift_def inverse_gates_def)

text \<open>
  Claim C2, as amended. The test of the first hop reads the first component of the hop's
  target alcove coordinate. When it is at most \<open>1/4\<close>, the native fragment is the
  circuit so far and the running phase stays \<open>1\<close>; for a path of this one hop the
  output has exactly the instructions of the native fragment and the global phase \<open>0\<close>.
  When it is above \<open>1/4\<close>, the native fragment is wrapped: \<open>RZ(\<pi>)\<close> on wire 0
  (the reflection \<^verbatim>\<open>"reflect XX, YY"\<close>), the fragment, \<open>RZ(-\<pi>)\<close> on wire 0,
  then \<open>RX(\<pi>)\<close> on both wires (the \<^verbatim>\<open>"X shift"\<close>); the running phase is
  multiplied by the two table phases, which gives \<open>-\<i>\<close>, and for a path of this one
  hop the output has the global phase \<open>\<pi>/2\<close>. In both cases the global phase of the
  output is set from the running phase alone: the native fragment's own global phase
  does not enter it.
\<close>

theorem first_hop_special_case:
  assumes "coordinate_table_from ext [] operation_list = Inr cct"
      and "xx_interaction_type ext cct"
      and "gate_table_from [] operation_list = Inr cgt"
      and "map_of cgt operation = Some native"
  shows "(coord_nth target 0 \<le> 1 / 4 \<longrightarrow>
            first_hop cgt (source, operation, target) = Inr (data native, 1)
          \<and> xx_circuit_from_decomposition ext [(source, operation, target)] operation_list
              = Inr \<lparr> data = data native, global_phase = 0 \<rparr>)
       \<and> (1 / 4 < coord_nth target 0 \<longrightarrow>
            first_hop cgt (source, operation, target)
              = Inr ([Rot RZGate pi 0] @ data native @ [Rot RZGate (- pi) 0]
                       @ [Rot RXGate pi 0, Rot RXGate pi 1],
                     fst (snd (shift_options XShift))
                       * fst (snd (reflection_options ReflectXXYY)))
          \<and> fst (snd (shift_options XShift)) * fst (snd (reflection_options ReflectXXYY))
              = - \<i>
          \<and> xx_circuit_from_decomposition ext [(source, operation, target)] operation_list
              = Inr \<lparr> data = [Rot RZGate pi 0] @ data native @ [Rot RZGate (- pi) 0]
                              @ [Rot RXGate pi 0, Rot RXGate pi 1],
                      global_phase = pi / 2 \<rparr>)"
proof (intro conjI impI)
  assume le: "coord_nth target 0 \<le> 1 / 4"
  then show direct: "first_hop cgt (source, operation, target) = Inr (data native, 1)"
    using first_hop_cases [OF assms(4)] by simp
  show "xx_circuit_from_decomposition ext [(source, operation, target)] operation_list
          = Inr \<lparr> data = data native, global_phase = 0 \<rparr>"
    using assms(1-3) direct
    by (simp add: xx_circuit_from_decomposition_def global_phase_setter_values)
next
  assume gt: "1 / 4 < coord_nth target 0"
  then show wrapped: "first_hop cgt (source, operation, target)
              = Inr ([Rot RZGate pi 0] @ data native @ [Rot RZGate (- pi) 0]
                       @ [Rot RXGate pi 0, Rot RXGate pi 1],
                     fst (snd (shift_options XShift))
                       * fst (snd (reflection_options ReflectXXYY)))"
    using first_hop_cases [OF assms(4)] by simp
  show "xx_circuit_from_decomposition ext [(source, operation, target)] operation_list
              = Inr \<lparr> data = [Rot RZGate pi 0] @ data native @ [Rot RZGate (- pi) 0]
                              @ [Rot RXGate pi 0, Rot RXGate pi 1],
                      global_phase = pi / 2 \<rparr>"
    using assms(1-3) wrapped
    by (simp add: xx_circuit_from_decomposition_def global_phase_setter_values)
next
  show "fst (snd (shift_options XShift)) * fst (snd (reflection_options ReflectXXYY)) = - \<i>"
    by simp
qed

lemma point_catalog_tables:
  "coordinate_table_from sample_externals [] [point_operation name a 0 0 fragment]
     = Inr [(name, (a, 0, 0))]"
  "gate_table_from [] [point_operation name a 0 0 fragment] = Inr [(name, fragment)]"
  "xx_interaction_type sample_externals [(name, (a, 0, 0))]"
  by (simp_all add: coordinate_item_point xx_interaction_type_def list_at_def,
      simp_all add: sample_externals_def point_operation_def)

theorem first_hop_special_case_witness:
  "coord_nth (1 / 4, 0, 0) 0 \<le> 1 / 4
   \<and> xx_circuit_from_decomposition sample_externals [((0, 0, 0), ''g'', (1 / 4, 0, 0))]
        [point_operation ''g'' (1 / 4) 0 0 sample_fragment]
      = Inr \<lparr> data = [Ext ''g''], global_phase = 0 \<rparr>
   \<and> 1 / 4 < coord_nth (3 / 10, 0, 0) 0
   \<and> xx_circuit_from_decomposition sample_externals [((0, 0, 0), ''g'', (3 / 10, 0, 0))]
        [point_operation ''g'' (3 / 10) 0 0 sample_fragment]
      = Inr \<lparr> data = [Rot RZGate pi 0, Ext ''g'', Rot RZGate (- pi) 0,
                      Rot RXGate pi 0, Rot RXGate pi 1],
              global_phase = pi / 2 \<rparr>"
proof -
  have look: "map_of [(''g'', sample_fragment)] ''g'' = Some sample_fragment" by simp
  show ?thesis
    using first_hop_special_case [OF point_catalog_tables(1) point_catalog_tables(3)
        point_catalog_tables(2) look, where target = "(1 / 4, 0, 0)" and source = "(0, 0, 0)"]
      first_hop_special_case [OF point_catalog_tables(1) point_catalog_tables(3)
        point_catalog_tables(2) look, where target = "(3 / 10, 0, 0)" and source = "(0, 0, 0)"]
    by (simp add: sample_fragment_def)
qed

text \<open>
  Claim C2 as the specification states it fails in its last part, that the global phase
  of the wrapped case differs from the native fragment's own phase: for a native fragment
  whose own global phase is \<open>\<pi>/2\<close> and the coordinate parameter \<open>0.3\<close> the
  output has the global phase \<open>\<pi>/2\<close> as well.
\<close>

theorem first_hop_special_case_counterexample:
  "xx_circuit_from_decomposition sample_externals [((0, 0, 0), ''g'', (3 / 10, 0, 0))]
        [point_operation ''g'' (3 / 10) 0 0 sample_fragment]
      = Inr \<lparr> data = [Rot RZGate pi 0, Ext ''g'', Rot RZGate (- pi) 0,
                      Rot RXGate pi 0, Rot RXGate pi 1],
              global_phase = global_phase sample_fragment \<rparr>"
proof -
  have "first_hop [(''g'', sample_fragment)] ((0, 0, 0), ''g'', (3 / 10, 0, 0))
          = Inr ([Rot RZGate pi 0, Ext ''g'', Rot RZGate (- pi) 0,
                  Rot RXGate pi 0, Rot RXGate pi 1], - \<i>)"
    by (simp add: first_hop_def apply_reflection_def apply_shift_def inverse_gates_def
          sample_fragment_def)
  then show ?thesis
    unfolding xx_circuit_from_decomposition_def point_catalog_tables(1,2)
    by (simp add: global_phase_setter_values sample_fragment_def point_catalog_tables(3))
qed

subsection \<open>A run of two hops\<close>

lemma sum_lessThan_4: "(\<Sum>k<(4::nat). f k) = f 0 + f 1 + f 2 + (f 3 :: complex)"
  by (simp add: eval_nat_numeral)

lemma identity_middle:
  "np_dot (np_dot identity_matrix (np_kron identity_matrix identity_matrix)) identity_matrix 0 0 = 1"
  "np_dot (np_dot identity_matrix (np_kron identity_matrix identity_matrix)) identity_matrix 1 1 = 1"
  "np_dot (np_dot identity_matrix (np_kron identity_matrix identity_matrix)) identity_matrix 1 2 = 0"
  "np_dot (np_dot identity_matrix (np_kron identity_matrix identity_matrix)) identity_matrix 0 3 = 0"
  by (simp_all add: np_dot_def np_kron_def identity_matrix_def sum_lessThan_4)

lemma identity_generated:
  "np_dot (np_dot (np_kron identity_matrix identity_matrix)
             (np_dot (np_dot identity_matrix (np_kron identity_matrix identity_matrix))
                     identity_matrix))
          (np_kron identity_matrix identity_matrix) 3 0 = 0"
  by (simp add: np_dot_def np_kron_def identity_matrix_def sum_lessThan_4)

text \<open>
  In the concrete environment all matrices are the identity, so the four phase
  observables are \<open>0\<close>, \<open>0\<close>, \<open>\<pi>/2\<close>, \<open>\<pi>/2\<close> and no parity correction
  applies.
\<close>

lemma decompose_sample_externals:
  assumes "safe_arccos
             ((cos (a1 - b1))\<^sup>2 * (cos a2)\<^sup>2 + (sin (a1 - b1))\<^sup>2 * (sin a2)\<^sup>2
                - (cos (a_target - b_target))\<^sup>2)
             (2 * cos (a1 - b1) * cos a2 * sin (a1 - b1) * sin a2) = Some arccos_plus"
      and "safe_arccos
             ((cos (a1 + b1))\<^sup>2 * (cos a2)\<^sup>2 + (sin (a1 + b1))\<^sup>2 * (sin a2)\<^sup>2
                - (cos (a_target + b_target))\<^sup>2)
             (2 * cos (a1 + b1) * cos a2 * sin (a1 + b1) * sin a2) = Some arccos_minus"
  shows "decompose_xxyy_into_xxyy_xx sample_externals a_target b_target a1 b1 a2
     = Some (pi / 4, 0,
             (1 / 2 * arccos_plus + 1 / 2 * arccos_minus) / 2,
             (1 / 2 * arccos_plus - 1 / 2 * arccos_minus) / 2,
             - pi / 4, 0)"
proof -
  have p: "2 \<le> pi" by (rule pi_ge_two)
  have ext: "canonical_matrix sample_externals = (\<lambda>args. identity_matrix)"
    "rz_matrix sample_externals = (\<lambda>theta. identity_matrix)"
    by (simp_all add: sample_externals_def)
  show ?thesis
    unfolding decompose_xxyy_into_xxyy_xx_def Let_def assms option.case ext
      identity_middle identity_generated Arg_one Arg_zero
    using p by simp
qed

lemma sample_arccos_plus:
  "safe_arccos
     ((cos (pi / 4 - 0))\<^sup>2 * (cos (pi / 4))\<^sup>2 + (sin (pi / 4 - 0))\<^sup>2 * (sin (pi / 4))\<^sup>2
        - (cos (pi / 2 - 0))\<^sup>2)
     (2 * cos (pi / 4 - 0) * cos (pi / 4) * sin (pi / 4 - 0) * sin (pi / 4)) = Some 0"
  by (simp add: cos_45 sin_45 safe_arccos_def np_arccos_ratio_def power2_eq_square)

lemma sample_arccos_minus:
  "safe_arccos
     ((cos (pi / 4 + 0))\<^sup>2 * (cos (pi / 4))\<^sup>2 + (sin (pi / 4 + 0))\<^sup>2 * (sin (pi / 4))\<^sup>2
        - (cos (pi / 2 + 0))\<^sup>2)
     (2 * cos (pi / 4 + 0) * cos (pi / 4) * sin (pi / 4 + 0) * sin (pi / 4)) = Some 0"
  by (simp add: cos_45 sin_45 safe_arccos_def np_arccos_ratio_def power2_eq_square)

lemma sample_decompose:
  "decompose_xxyy_into_xxyy_xx sample_externals (pi / 2) 0 (pi / 4) 0 (pi / 4)
     = Some (pi / 4, 0, 0, 0, - pi / 4, 0)"
  using decompose_sample_externals [OF sample_arccos_plus sample_arccos_minus] by simp

lemma nearp_same: "nearp x x pi (1 / 100)"
  by (simp add: nearp_def np_mod_def)

lemma sample_shared: "shared_axes (0, pi / 4, 0) (0, pi / 2, 0) = Some (0, 0)"
  by (simp add: shared_axes_def axis_pairs_def nearp_same)

lemma sample_backsolve:
  "backsolve sample_externals [(''g'', (pi / 4, 0, 0))] ''g'' (0, pi / 4, 0) (0, pi / 2, 0) 0 0
     = Inr (Some ((1, 2), (1, 2), (pi / 4, 0, 0, 0, - pi / 4, 0)))"
  by (simp add: backsolve_def other_axes_def sample_decompose)

lemma sample_try_combination:
  "try_combination sample_externals [(''g'', (pi / 4, 0, 0))] ''g'' (0, pi / 4, 0) (0, pi / 2, 0)
     (NoReflection, NoShift) = Inr (Some sample_found)"
  by (simp add: try_combination_def apply_reflection_def try_shift_def apply_shift_def
        sample_shared sample_backsolve sample_found_def)

lemma sample_search:
  "search_hop sample_externals [(''g'', (pi / 4, 0, 0))] sample_second_hop
     = Inr (Some sample_found)"
proof -
  have "alcove_to_positive_canonical_coordinate sample_externals = (\<lambda>x y z. (x, y, z))"
    by (simp add: sample_externals_def)
  then show ?thesis
    by (simp add: search_hop_def sample_second_hop_def reflection_loop_first_outcome
          combinations_in_order sample_try_combination)
qed

lemma sample_first_hop_state:
  "first_hop [(''g'', sample_fragment)] sample_first_hop = Inr (sample_wrapped, - \<i>)"
  by (simp add: first_hop_def sample_first_hop_def apply_reflection_def apply_shift_def
        inverse_gates_def sample_fragment_def sample_wrapped_def)

lemma sample_hop_step:
  "hop_step sample_externals [(''g'', (pi / 4, 0, 0))] [(''g'', sample_fragment)]
     (sample_wrapped, - \<i>) sample_second_hop
   = Inr (assemble_hop sample_wrapped (data sample_fragment) sample_found, - \<i>)"
  by (simp add: hop_step_def sample_search, simp add: sample_second_hop_def sample_found_def)

lemma sample_run:
  "xx_circuit_from_decomposition sample_externals [sample_first_hop, sample_second_hop]
     sample_catalog
   = Inr \<lparr> data = assemble_hop sample_wrapped (data sample_fragment) sample_found,
           global_phase = pi / 2 \<rparr>"
  unfolding xx_circuit_from_decomposition_def sample_tables(1,2)
  by (simp add: sample_tables(3) sample_first_hop_state sample_hop_step
        global_phase_setter_values)

text \<open>
  The second hop of the sample path is realized, and its circuit has the nesting of
  \<open>hop_circuit_nesting\<close> around the circuit of the first hop.
\<close>

theorem hop_circuit_nesting_witness:
  "hop_step sample_externals [(''g'', (pi / 4, 0, 0))] [(''g'', sample_fragment)]
     (sample_wrapped, - \<i>) sample_second_hop
   = Inr (assemble_hop sample_wrapped (data sample_fragment) sample_found, - \<i>)
   \<and> (\<exists>found native.
         search_hop sample_externals [(''g'', (pi / 4, 0, 0))] sample_second_hop
           = Inr (Some found)
       \<and> map_of [(''g'', sample_fragment)] (fst (snd sample_second_hop)) = Some native
       \<and> assemble_hop sample_wrapped (data sample_fragment) sample_found =
             inverse_gates (permute_target_for_overlap found)
             @ [Rot RZGate (2 * angle_x found) 0, Rot RZGate (2 * angle_y found) 1]
             @ data native
             @ [Rot RZGate (2 * angle_u found) 0, Rot RZGate (2 * angle_v found) 1]
             @ permute_source_for_overlap found
             @ source_reflection found
             @ sample_wrapped
             @ inverse_gates (source_reflection found)
             @ source_shift found
             @ inverse_gates (permute_source_for_overlap found)
             @ [Rot RZGate (2 * angle_r found) 0, Rot RZGate (2 * angle_s found) 1]
             @ permute_target_for_overlap found)"
  using hop_circuit_nesting [OF sample_hop_step] sample_hop_step by blast

text \<open>
  On the second hop of the sample path the first of the 32 combinations, no reflection
  with no shift, decides.
\<close>

theorem search_order_fixed_witness:
  "search_hop sample_externals [(''g'', (pi / 4, 0, 0))] ((0, pi / 4, 0), ''g'', (0, pi / 2, 0))
     = (first_outcome
         (map (try_combination sample_externals [(''g'', (pi / 4, 0, 0))] ''g''
                 (alcove_to_positive_canonical_coordinate sample_externals 0 (pi / 4) 0)
                 (alcove_to_positive_canonical_coordinate sample_externals 0 (pi / 2) 0))
              (List.product reflection_names shift_names))
        :: error + string realization option)
   \<and> search_hop sample_externals [(''g'', (pi / 4, 0, 0))]
        ((0, pi / 4, 0), ''g'', (0, pi / 2, 0)) = Inr (Some sample_found)"
  using search_order_fixed [of sample_externals "[(''g'', (pi / 4, 0, 0))]" 0 "pi / 4" 0 "''g''"
      0 "pi / 2" 0, where 'a = string]
    sample_search [unfolded sample_second_hop_def]
  by blast

subsection \<open>Exhausted searches\<close>

lemma symmetric_image_apply:
  assumes "apply_reflection rname source = (reflected, rcirc :: 'g instruction list, rphase)"
      and "apply_shift sname reflected = (shifted, scirc :: 'g instruction list, sphase)"
  shows "symmetric_image rname sname source = shifted"
  using assms
  by (auto simp: symmetric_image_def apply_reflection_def apply_shift_def split: prod.splits)

lemma try_combination_skips:
  assumes "shared_axes (symmetric_image rname sname source) target = None
         \<or> (\<exists>i j. shared_axes (symmetric_image rname sname source) target = Some (i, j)
               \<and> backsolve ext cct operation (symmetric_image rname sname source) target i j
                   = Inr None)"
  shows "try_combination ext cct operation source target (rname, sname)
           = (Inr None :: error + 'g realization option)"
proof -
  obtain reflected rcirc rphase where
    ar: "apply_reflection rname source = (reflected, rcirc :: 'g instruction list, rphase)"
    by (cases "apply_reflection rname source :: coord \<times> 'g instruction list \<times> complex") auto
  obtain shifted scirc sphase where
    as: "apply_shift sname reflected = (shifted, scirc :: 'g instruction list, sphase)"
    by (cases "apply_shift sname reflected :: coord \<times> 'g instruction list \<times> complex") auto
  have img: "symmetric_image rname sname source = shifted"
    using symmetric_image_apply [OF ar as] .
  from assms show ?thesis
    unfolding img by (auto simp: try_combination_def try_shift_def ar as)
qed

lemma search_hop_exhausted:
  assumes "\<forall>rname\<in>set reflection_names. \<forall>sname\<in>set shift_names.
             shared_axes (symmetric_image rname sname
                            (alcove_to_positive_canonical_coordinate ext sx sy sz))
                         (alcove_to_positive_canonical_coordinate ext tx ty tz) = None
           \<or> (\<exists>i j. shared_axes (symmetric_image rname sname
                                    (alcove_to_positive_canonical_coordinate ext sx sy sz))
                                 (alcove_to_positive_canonical_coordinate ext tx ty tz)
                       = Some (i, j)
                 \<and> backsolve ext cct operation
                      (symmetric_image rname sname
                         (alcove_to_positive_canonical_coordinate ext sx sy sz))
                      (alcove_to_positive_canonical_coordinate ext tx ty tz) i j = Inr None)"
  shows "search_hop ext cct ((sx, sy, sz), operation, (tx, ty, tz))
           = (Inr None :: error + 'g realization option)"
proof -
  have "\<forall>outcome \<in> set (map (try_combination ext cct operation
               (alcove_to_positive_canonical_coordinate ext sx sy sz)
               (alcove_to_positive_canonical_coordinate ext tx ty tz))
            (List.product reflection_names shift_names)).
          outcome = (Inr None :: error + 'g realization option)"
  proof -
    have "try_combination ext cct operation
               (alcove_to_positive_canonical_coordinate ext sx sy sz)
               (alcove_to_positive_canonical_coordinate ext tx ty tz) (rname, sname)
            = (Inr None :: error + 'g realization option)"
      if "rname \<in> set reflection_names" "sname \<in> set shift_names" for rname sname
      using assms that by (intro try_combination_skips) blast
    then show ?thesis by auto
  qed
  then show ?thesis
    by (simp only: search_hop_def Let_def prod.case reflection_loop_first_outcome
          first_outcome_all_skip)
qed

lemma run_hops_append:
  "run_hops ext cct cgt state (hs @ hs') =
     (case run_hops ext cct cgt state hs of
        Inl e \<Rightarrow> Inl e
      | Inr state' \<Rightarrow> run_hops ext cct cgt state' hs')"
  by (induction hs arbitrary: state) (auto split: sum.splits)

text \<open>
  Claim C3. Take a hop after the first, reached with the tables built, the assertion
  passed and all hops before it realized. If every one of the 32 combinations of a
  reflection and a shift either has no axis pair that is near modulo \<open>\<pi>\<close>, or has
  one whose backsolve contains a NaN, then the synthesis raises
  \<^verbatim>\<open>NoBacksolution\<close>: it returns no circuit and raises no other error.
\<close>

theorem exhausted_search_raises_NoBacksolution:
  assumes "coordinate_table_from ext [] operation_list = Inr cct"
      and "xx_interaction_type ext cct"
      and "gate_table_from [] operation_list = Inr cgt"
      and "first_hop cgt first = Inr state0"
      and "run_hops ext cct cgt state0 before = Inr state"
      and "\<forall>rname\<in>set reflection_names. \<forall>sname\<in>set shift_names.
             shared_axes (symmetric_image rname sname
                            (alcove_to_positive_canonical_coordinate ext sx sy sz))
                         (alcove_to_positive_canonical_coordinate ext tx ty tz) = None
           \<or> (\<exists>i j. shared_axes (symmetric_image rname sname
                                    (alcove_to_positive_canonical_coordinate ext sx sy sz))
                                 (alcove_to_positive_canonical_coordinate ext tx ty tz)
                       = Some (i, j)
                 \<and> backsolve ext cct operation
                      (symmetric_image rname sname
                         (alcove_to_positive_canonical_coordinate ext sx sy sz))
                      (alcove_to_positive_canonical_coordinate ext tx ty tz) i j = Inr None)"
  shows "xx_circuit_from_decomposition ext
           (first # before @ ((sx, sy, sz), operation, (tx, ty, tz)) # after) operation_list
         = Inl NoBacksolution"
proof -
  have "search_hop ext cct ((sx, sy, sz), operation, (tx, ty, tz))
          = (Inr None :: error + 'a realization option)"
    using search_hop_exhausted [OF assms(6)] .
  then have "hop_step ext cct cgt state ((sx, sy, sz), operation, (tx, ty, tz))
          = Inl NoBacksolution"
    by (cases state) (simp add: hop_step_def)
  then have "run_hops ext cct cgt state0
               (before @ ((sx, sy, sz), operation, (tx, ty, tz)) # after) = Inl NoBacksolution"
    using assms(5) by (simp add: run_hops_append)
  with assms(1-4) show ?thesis
    by (simp add: xx_circuit_from_decomposition_def)
qed

lemma not_nearp_quarter_pi:
  "\<not> nearp 0 (pi / 4) pi (1 / 100)" "\<not> nearp (pi / 2) (pi / 4) pi (1 / 100)"
proof -
  have p: "2 \<le> pi" by (rule pi_ge_two)
  have m: "np_mod (pi / 4) pi = Some (pi / 4)"
    using p by (intro np_mod_small) simp_all
  show "\<not> nearp 0 (pi / 4) pi (1 / 100)"
    using p m by (simp add: nearp_def)
  have "\<bar>pi / 2 - pi / 4\<bar> = pi / 4" using p by simp
  then show "\<not> nearp (pi / 2) (pi / 4) pi (1 / 100)"
    using p m by (simp add: nearp_def)
qed

lemma shared_axes_quarter:
  assumes "a \<in> {0, pi / 2}" "b \<in> {0, pi / 2}" "c \<in> {0, pi / 2}"
  shows "shared_axes (a, b, c) (pi / 4, pi / 4, pi / 4) = None"
proof -
  have far: "\<not> nearp x (pi / 4) pi (1 / 100)" if "x \<in> {0, pi / 2}" for x
    using that not_nearp_quarter_pi by blast
  show ?thesis
    using far [OF assms(1)] far [OF assms(2)] far [OF assms(3)]
    by (simp add: shared_axes_def axis_pairs_def)
qed

lemma unrealizable_hop_exhausted:
  "\<forall>rname\<in>set reflection_names. \<forall>sname\<in>set shift_names.
      shared_axes (symmetric_image rname sname
                     (alcove_to_positive_canonical_coordinate sample_externals 0 0 0))
                  (alcove_to_positive_canonical_coordinate sample_externals (pi / 4) (pi / 4) (pi / 4))
        = None
    \<or> (\<exists>i j. shared_axes (symmetric_image rname sname
                     (alcove_to_positive_canonical_coordinate sample_externals 0 0 0))
                  (alcove_to_positive_canonical_coordinate sample_externals (pi / 4) (pi / 4) (pi / 4))
                = Some (i, j)
          \<and> backsolve sample_externals [(''g'', (pi / 4, 0, 0))] ''g''
               (symmetric_image rname sname
                     (alcove_to_positive_canonical_coordinate sample_externals 0 0 0))
               (alcove_to_positive_canonical_coordinate sample_externals (pi / 4) (pi / 4) (pi / 4))
               i j = Inr None)"
proof -
  have ext: "alcove_to_positive_canonical_coordinate sample_externals = (\<lambda>x y z. (x, y, z))"
    by (simp add: sample_externals_def)
  show ?thesis
    unfolding ext
    by (simp add: reflection_names_def shift_names_def symmetric_image_def apply_reflection_def
          apply_shift_def shared_axes_quarter)
qed

text \<open>
  A path whose third hop goes from \<open>(0, 0, 0)\<close> to \<open>(\<pi>/4, \<pi>/4, \<pi>/4)\<close>: every
  image of the source has its components in \<open>{0, \<pi>/2}\<close>, none of them near \<open>\<pi>/4\<close>
  modulo \<open>\<pi>\<close>, so no combination has a shared axis.
\<close>

theorem exhausted_search_raises_NoBacksolution_witness:
  "coordinate_table_from sample_externals [] sample_catalog = Inr [(''g'', (pi / 4, 0, 0))]
   \<and> xx_interaction_type sample_externals [(''g'', (pi / 4, 0, 0))]
   \<and> gate_table_from [] sample_catalog = Inr [(''g'', sample_fragment)]
   \<and> first_hop [(''g'', sample_fragment)] sample_first_hop = Inr (sample_wrapped, - \<i>)
   \<and> run_hops sample_externals [(''g'', (pi / 4, 0, 0))] [(''g'', sample_fragment)]
        (sample_wrapped, - \<i>) [sample_second_hop]
      = Inr (assemble_hop sample_wrapped (data sample_fragment) sample_found, - \<i>)
   \<and> list_all (\<lambda>(rname, sname).
                 shared_axes (symmetric_image rname sname (0, 0, 0)) (pi / 4, pi / 4, pi / 4)
                   = None)
        (List.product reflection_names shift_names)
   \<and> xx_circuit_from_decomposition sample_externals
        (sample_first_hop # [sample_second_hop]
           @ ((0, 0, 0), ''g'', (pi / 4, pi / 4, pi / 4)) # [sample_second_hop])
        sample_catalog
      = Inl NoBacksolution"
proof -
  have run: "run_hops sample_externals [(''g'', (pi / 4, 0, 0))] [(''g'', sample_fragment)]
        (sample_wrapped, - \<i>) [sample_second_hop]
      = Inr (assemble_hop sample_wrapped (data sample_fragment) sample_found, - \<i>)"
    by (simp add: sample_hop_step)
  have none: "list_all (\<lambda>(rname, sname).
                 shared_axes (symmetric_image rname sname (0, 0, 0)) (pi / 4, pi / 4, pi / 4)
                   = None)
        (List.product reflection_names shift_names)"
    by (simp add: reflection_names_def shift_names_def symmetric_image_def apply_reflection_def
          apply_shift_def shared_axes_quarter)
  show ?thesis
    using exhausted_search_raises_NoBacksolution [OF sample_tables(1) sample_tables(3)
        sample_tables(2) sample_first_hop_state run unrealizable_hop_exhausted,
        of "[sample_second_hop]"]
      sample_tables sample_first_hop_state run none
    by blast
qed

subsection \<open>The nesting of the specification on the sample run\<close>

text \<open>
  Claim C1 as the specification states it fails on the second hop of the sample path.
  The search stops at the first combination; the circuit that lines 374 to 403 build
  around the circuit of the first hop is neither the nesting of the specification read
  in the order written nor that nesting read as a composition of operators.
\<close>

theorem hop_circuit_nesting_counterexample:
  "hop_step sample_externals [(''g'', (pi / 4, 0, 0))] [(''g'', sample_fragment)]
     (sample_wrapped, - \<i>) sample_second_hop
   = Inr (assemble_hop sample_wrapped (data sample_fragment) sample_found, - \<i>)
   \<and> assemble_hop sample_wrapped (data sample_fragment) sample_found
     \<noteq> spec_nesting sample_wrapped (data sample_fragment) sample_found
   \<and> assemble_hop sample_wrapped (data sample_fragment) sample_found
     \<noteq> spec_nesting_operator_order sample_wrapped (data sample_fragment) sample_found"
proof -
  have "assemble_hop sample_wrapped (data sample_fragment) sample_found
     \<noteq> spec_nesting sample_wrapped (data sample_fragment) sample_found"
    by (simp add: assemble_hop_flat spec_nesting_def sample_found_def sample_wrapped_def
          sample_fragment_def canonical_rotation_circuit_def inverse_gates_def)
  moreover have "assemble_hop sample_wrapped (data sample_fragment) sample_found
     \<noteq> spec_nesting_operator_order sample_wrapped (data sample_fragment) sample_found"
    by (simp add: assemble_hop_flat spec_nesting_operator_order_def sample_found_def
          sample_wrapped_def sample_fragment_def canonical_rotation_circuit_def
          inverse_gates_def)
  ultimately show ?thesis using sample_hop_step by blast
qed

subsection \<open>A run that chooses the Z shift\<close>














subsection \<open>The running global phase\<close>











end
